theory Spec2Isabelle
  imports Main "HOL-Library.Sublist" "HOL-Library.Word"
begin

chapter \<open>The model\<close>

section \<open>JavaScript objects used as string-keyed tables\<close>

text \<open>
  The SDK keeps its tables (the token store read from \<^verbatim>\<open>tokens.json\<close>, the table
  \<^verbatim>\<open>ERROR_CODES\<close>) in ordinary JavaScript objects and reads them with
  \<^verbatim>\<open>table[key]\<close>. An ordinary object has its own members and, behind them, the members
  of \<^verbatim>\<open>Object.prototype\<close>. So \<^verbatim>\<open>table[key]\<close> is

  \<^item> the own member \<^verbatim>\<open>key\<close>, when there is one;
  \<^item> otherwise the member of \<^verbatim>\<open>Object.prototype\<close> of that name (a function, or for
    \<^verbatim>\<open>__proto__\<close> the prototype object itself; all of them are truthy), when
    \<^verbatim>\<open>key\<close> is one of the twelve names below;
  \<^item> otherwise \<^verbatim>\<open>undefined\<close>.

  An assignment \<^verbatim>\<open>table[key] = v\<close> creates or overwrites the own member, with one
  exception: \<^verbatim>\<open>__proto__\<close> is an accessor of \<^verbatim>\<open>Object.prototype\<close>, so when the
  object has no own member of that name (\<^verbatim>\<open>JSON.parse\<close> creates one when the text has
  the key) the assignment replaces the prototype of the object and adds no member.
  \<^verbatim>\<open>delete table[key]\<close>, \<^verbatim>\<open>Object.keys\<close> and \<^verbatim>\<open>JSON.stringify\<close> see own
  members only.
\<close>

definition Object_prototype_names :: "string list" where
  "Object_prototype_names =
     [''constructor'', ''__proto__'', ''hasOwnProperty'', ''isPrototypeOf'',
      ''propertyIsEnumerable'', ''toLocaleString'', ''toString'', ''valueOf'',
      ''__defineGetter__'', ''__defineSetter__'', ''__lookupGetter__'',
      ''__lookupSetter__'']"

datatype 'a property = Undefined | Inherited | Own 'a

definition get_property :: "(string \<rightharpoonup> 'a) \<Rightarrow> string \<Rightarrow> 'a property" where
  "get_property obj key =
     (case obj key of
        Some v \<Rightarrow> Own v
      | None \<Rightarrow> if key \<in> set Object_prototype_names then Inherited else Undefined)"

definition set_property :: "(string \<rightharpoonup> 'a) \<Rightarrow> string \<Rightarrow> 'a \<Rightarrow> (string \<rightharpoonup> 'a)" where
  "set_property obj key v =
     (if key = ''__proto__'' \<and> obj key = None then obj else obj(key \<mapsto> v))"

definition delete_property :: "(string \<rightharpoonup> 'a) \<Rightarrow> string \<Rightarrow> (string \<rightharpoonup> 'a)" where
  "delete_property obj key = obj(key := None)"

definition Object_keys :: "(string \<rightharpoonup> 'a) \<Rightarrow> string set" where
  "Object_keys obj = dom obj"

text \<open>
  What \<^verbatim>\<open>String(v)\<close> gives for an inherited member \<^verbatim>\<open>v\<close> of
  \<^verbatim>\<open>Object.prototype\<close> on Node.js: the prototype object prints as an object, a
  built-in function as its native-code stub.
\<close>

definition Object_prototype_text :: "string \<Rightarrow> string" where
  "Object_prototype_text name =
     (if name = ''__proto__'' then ''[object Object]''
      else ''function '' @ (if name = ''constructor'' then ''Object'' else name)
             @ ''() { [native code] }'')"

section \<open>JSON values\<close>

text \<open>
  A value as \<^verbatim>\<open>JSON.parse\<close> and \<^verbatim>\<open>response.json()\<close> return it. An object lists
  its members, each key once. A number is kept as the text JavaScript prints for it
  (\<^verbatim>\<open>Number.prototype.toString\<close>): the code below observes of a number only whether
  it is truthy (all but the one printed \<^verbatim>\<open>0\<close>) and its string form.
\<close>

datatype json =
    JNull
  | JBool bool
  | JNum string
  | JStr string
  | JArr "json list"
  | JObj "(string \<times> json) list"

text \<open>
  Truthiness, \<^verbatim>\<open>typeof v === "object"\<close>, and the member read \<^verbatim>\<open>v.key\<close> for the keys
  this code reads (\<^verbatim>\<open>error\<close>, \<^verbatim>\<open>code\<close>, \<^verbatim>\<open>message\<close> and the members of the
  token response), none of which a prototype defines: \<open>None\<close> is \<^verbatim>\<open>undefined\<close>.
  On \<^verbatim>\<open>null\<close> a member read throws; each caller below says what then happens.
\<close>

fun truthy :: "json \<Rightarrow> bool" where
  "truthy JNull = False"
| "truthy (JBool b) = b"
| "truthy (JNum text) = (text \<noteq> ''0'')"
| "truthy (JStr s) = (s \<noteq> [])"
| "truthy (JArr _) = True"
| "truthy (JObj _) = True"

fun typeof_object :: "json \<Rightarrow> bool" where
  "typeof_object JNull = True"
| "typeof_object (JArr _) = True"
| "typeof_object (JObj _) = True"
| "typeof_object _ = False"

fun get_member :: "json \<Rightarrow> string \<Rightarrow> json option" where
  "get_member (JObj members) key = map_of members key"
| "get_member _ key = None"

text \<open>\<^verbatim>\<open>Array.prototype.join\<close> on strings, used by \<^verbatim>\<open>scopes.join(",")\<close> too.\<close>

fun join :: "string \<Rightarrow> string list \<Rightarrow> string" where
  "join sep [] = []"
| "join sep [x] = x"
| "join sep (x # y # ys) = x @ sep @ join sep (y # ys)"

text \<open>
  JavaScript's \<^verbatim>\<open>ToString\<close>, which \<^verbatim>\<open>String(v)\<close>, a template literal, a
  property key and the \<^verbatim>\<open>Error\<close> constructor apply: an array joins its elements with
  commas (\<^verbatim>\<open>null\<close> printing as nothing), an ordinary object prints as
  \<^verbatim>\<open>[object Object]\<close>, and throws a \<^verbatim>\<open>TypeError\<close> (\<open>None\<close>) when it has an own
  member \<^verbatim>\<open>toString\<close>, which JSON cannot make callable.
\<close>

fun to_string :: "json \<Rightarrow> string option" where
  "to_string JNull = Some ''null''"
| "to_string (JBool b) = Some (if b then ''true'' else ''false'')"
| "to_string (JNum text) = Some text"
| "to_string (JStr s) = Some s"
| "to_string (JArr elements) =
     map_option (join '','')
       (those (map (\<lambda>e. if e = JNull then Some [] else to_string e) elements))"
| "to_string (JObj members) =
     (if ''toString'' \<in> fst ` set members then None else Some ''[object Object]'')"

section \<open>Errors\<close>

text \<open>
  The error classes of \<^verbatim>\<open>types.ts\<close>. \<^verbatim>\<open>GaugidAuthError\<close> has a message and a code,
  \<^verbatim>\<open>GaugidAPIError\<close> a message, a code, the status and the response data.
  \<^verbatim>\<open>GaugidConnectionError\<close> is given by what it wraps: its message is
  \<^verbatim>\<open>Request timeout after <timeout>ms\<close> for an abort and
  \<^verbatim>\<open>Failed to connect to Gaugid API: <error>\<close> for every other original error.
  \<open>thrown\<close> adds the \<^verbatim>\<open>TypeError\<close> of the platform.
\<close>

datatype original_error = FetchRejected string | BodyNotJson | SchemaViolation | ThrownTypeError

datatype connection_failure = RequestTimeout nat | FailedToConnect original_error

datatype GaugidError =
    GaugidAuthError string "json option"
  | GaugidAPIError string "json option" nat "json option"
  | GaugidConnectionError connection_failure

datatype thrown = TypeError | Gaugid GaugidError

section \<open>The shared error parser\<close>

definition ERROR_CODES :: "(string \<times> string) list" where
  "ERROR_CODES =
     [(''A2P000'', ''Internal server error''),
      (''A2P001'', ''Not authorized''),
      (''A2P002'', ''Invalid public key format''),
      (''A2P003'', ''Profile not found''),
      (''A2P006'', ''Invalid request''),
      (''A2P009'', ''User already exists''),
      (''A2P013'', ''Authenticated DID must match''),
      (''A2P014'', ''Service not found''),
      (''A2P015'', ''Invalid redirect_uri''),
      (''A2P016'', ''Invalid scopes''),
      (''A2P017'', ''Invalid authorization code''),
      (''A2P018'', ''Authorization code expired''),
      (''A2P019'', ''Invalid or expired connection token''),
      (''A2P020'', ''Connection has been revoked''),
      (''A2P021'', ''Connection token required''),
      (''A2P022'', ''Service DID mismatch''),
      (''A2P023'', ''Rate limit exceeded''),
      (''A2P024'', ''Export limit exceeded''),
      (''A2P025'', ''Import limit exceeded''),
      (''A2P026'', ''Data import completed with errors'')]"

record HttpResponse =
  status :: nat
  statusText :: string
  body :: "json option"

definition ok :: "HttpResponse \<Rightarrow> bool" where
  "ok response = (200 \<le> status response \<and> status response \<le> 299)"

text \<open>\<^verbatim>\<open>v || d\<close> for a member read \<^verbatim>\<open>v\<close>.\<close>

definition or_else :: "json option \<Rightarrow> json \<Rightarrow> json" where
  "or_else v d = (case v of None \<Rightarrow> d | Some j \<Rightarrow> if truthy j then j else d)"

definition auth_codes :: "string list" where
  "auth_codes = [''A2P001'', ''A2P019'', ''A2P020'', ''A2P021'']"

text \<open>
  The step that appends the description. \<^verbatim>\<open>message.includes(description)\<close> is the
  substring test of a string, the element test of an array, and a \<^verbatim>\<open>TypeError\<close>
  for every other value, which has no such method. \<open>found\<close> is the table lookup,
  \<open>key\<close> the key it was made with.
\<close>

definition with_description :: "json \<Rightarrow> string property \<Rightarrow> string \<Rightarrow> json option" where
  "with_description message found key =
     (let description = (case found of Own d \<Rightarrow> d | _ \<Rightarrow> Object_prototype_text key);
          appended = map_option (\<lambda>m. JStr (m @ '' ('' @ description @ '')'')) (to_string message)
      in case message of
           JStr s \<Rightarrow> if sublist description s then Some message else appended
         | JArr elements \<Rightarrow>
             if found = Own description \<and> JStr description \<in> set elements then Some message
             else appended
         | _ \<Rightarrow> None)"

text \<open>
  \<^verbatim>\<open>parseGaugidError\<close>. \<^verbatim>\<open>errorData?.error\<close> is \<^verbatim>\<open>undefined\<close> on
  \<^verbatim>\<open>null\<close> too. The result is the error object it returns, or the
  \<^verbatim>\<open>TypeError\<close> it throws.
\<close>

definition parseGaugidError :: "HttpResponse \<Rightarrow> json option \<Rightarrow> thrown + GaugidError" where
  "parseGaugidError response errorData =
     (let errorObj = (case errorData of None \<Rightarrow> None | Some d \<Rightarrow> get_member d ''error'');
          fallback = JStr (if statusText response \<noteq> [] then statusText response
                           else ''Unknown error'');
          (code, message) =
            (case errorObj of
               None \<Rightarrow> (None, fallback)
             | Some obj \<Rightarrow>
                 if truthy obj \<and> typeof_object obj
                 then (get_member obj ''code'', or_else (get_member obj ''message'') fallback)
                 else (None, fallback));
          enhanced =
            (case code of
               None \<Rightarrow> Some message
             | Some c \<Rightarrow>
                 if \<not> truthy c then Some message
                 else (case to_string c of
                         None \<Rightarrow> None
                       | Some key \<Rightarrow>
                           (case get_property (map_of ERROR_CODES) key of
                              Undefined \<Rightarrow> Some message
                            | Inherited \<Rightarrow> with_description message Inherited key
                            | Own d \<Rightarrow>
                                if d = [] then Some message
                                else with_description message (Own d) key)))
      in case Option.bind enhanced to_string of
           None \<Rightarrow> Inl TypeError
         | Some text \<Rightarrow>
             if code \<in> Some ` JStr ` set auth_codes
             then Inr (GaugidAuthError text code)
             else Inr (GaugidAPIError text code (status response) errorData))"

section \<open>URLs and form encoding\<close>

text \<open>
  Strings are byte strings: the UTF-8 form of the JavaScript string.

  \<^verbatim>\<open>URLSearchParams\<close> parses \<^verbatim>\<open>application/x-www-form-urlencoded\<close> text: split at
  \<^verbatim>\<open>&\<close>, drop empty pieces, split each piece at its first \<^verbatim>\<open>=\<close>, turn
  \<^verbatim>\<open>+\<close> into a space and decode percent escapes. The escapes are taken to spell
  UTF-8 text: for escaped bytes that do not, the platform substitutes the
  replacement character, and \<open>percent_decode\<close> keeps the bytes.
\<close>

definition is_hex :: "char \<Rightarrow> bool" where
  "is_hex c =
     (let n = (of_char c :: nat) in
      (48 \<le> n \<and> n \<le> 57) \<or> (65 \<le> n \<and> n \<le> 70) \<or> (97 \<le> n \<and> n \<le> 102))"

definition hex_value :: "char \<Rightarrow> nat" where
  "hex_value c =
     (let n = of_char c in
      if 48 \<le> n \<and> n \<le> 57 then n - 48
      else if 97 \<le> n \<and> n \<le> 102 then n - 87
      else n - 55)"

fun percent_decode :: "string \<Rightarrow> string" where
  "percent_decode (c # h1 # h2 # rest) =
     (if c = CHR ''%'' \<and> is_hex h1 \<and> is_hex h2
      then char_of (hex_value h1 * 16 + hex_value h2) # percent_decode rest
      else c # percent_decode (h1 # h2 # rest))"
| "percent_decode (c # rest) = c # percent_decode rest"
| "percent_decode [] = []"

definition plus_to_space :: "string \<Rightarrow> string" where
  "plus_to_space s = map (\<lambda>c. if c = CHR ''+'' then CHR '' '' else c) s"

fun split_on :: "char \<Rightarrow> string \<Rightarrow> string list" where
  "split_on sep [] = [[]]"
| "split_on sep (c # cs) =
     (if c = sep then [] # split_on sep cs
      else (case split_on sep cs of
              [] \<Rightarrow> [[c]]
            | piece # pieces \<Rightarrow> (c # piece) # pieces))"

definition parse_pair :: "string \<Rightarrow> string \<times> string" where
  "parse_pair s =
     (percent_decode (plus_to_space (takeWhile (\<lambda>c. c \<noteq> CHR ''='') s)),
      percent_decode (plus_to_space (drop 1 (dropWhile (\<lambda>c. c \<noteq> CHR ''='') s))))"

definition urlencoded_parse :: "string \<Rightarrow> (string \<times> string) list" where
  "urlencoded_parse input = map parse_pair (filter (\<lambda>s. s \<noteq> []) (split_on CHR ''&'' input))"

text \<open>\<^verbatim>\<open>URLSearchParams.get\<close>: the value of the first pair of that name.\<close>

definition params_get :: "(string \<times> string) list \<Rightarrow> string \<Rightarrow> string option" where
  "params_get params name = map_of params name"

text \<open>
  \<^verbatim>\<open>URLSearchParams.toString\<close>: a space becomes \<^verbatim>\<open>+\<close>, the bytes of
  \<^verbatim>\<open>*-._\<close>, digits and letters stay, every other byte becomes a percent escape
  with upper-case digits.
\<close>

definition hex_digit :: "nat \<Rightarrow> char" where
  "hex_digit n = (if n < 10 then char_of (48 + n) else char_of (55 + n))"

definition unreserved :: "char \<Rightarrow> bool" where
  "unreserved c =
     (let n = (of_char c :: nat) in
      n = 42 \<or> n = 45 \<or> n = 46 \<or> (48 \<le> n \<and> n \<le> 57) \<or> (65 \<le> n \<and> n \<le> 90)
      \<or> n = 95 \<or> (97 \<le> n \<and> n \<le> 122))"

definition urlencoded_byte :: "char \<Rightarrow> string" where
  "urlencoded_byte c =
     (if c = CHR '' '' then ''+''
      else if unreserved c then [c]
      else [CHR ''%'', hex_digit (of_char c div 16), hex_digit (of_char c mod 16)])"

definition urlencoded_string :: "string \<Rightarrow> string" where
  "urlencoded_string s = concat (map urlencoded_byte s)"

definition urlencoded_pair :: "string \<times> string \<Rightarrow> string" where
  "urlencoded_pair p = urlencoded_string (fst p) @ ''='' @ urlencoded_string (snd p)"

definition urlencoded_serialize :: "(string \<times> string) list \<Rightarrow> string" where
  "urlencoded_serialize pairs = join ''&'' (map urlencoded_pair pairs)"

text \<open>
  \<^verbatim>\<open>new URL(input).searchParams\<close> for an input the URL parser accepts. The parser
  strips leading and trailing C0 controls and spaces, removes every tab and newline,
  and takes as query what stands between the first \<^verbatim>\<open>?\<close> and the first
  \<^verbatim>\<open>#\<close>. It also percent-encodes some bytes of the query; the parameter parser
  decodes them again, so that step is left out.
\<close>

definition is_C0_or_space :: "char \<Rightarrow> bool" where
  "is_C0_or_space c = ((of_char c :: nat) \<le> 32)"

definition is_tab_or_newline :: "char \<Rightarrow> bool" where
  "is_tab_or_newline c = ((of_char c :: nat) \<in> {9, 10, 13})"

definition strip_url :: "string \<Rightarrow> string" where
  "strip_url input =
     filter (\<lambda>c. \<not> is_tab_or_newline c)
       (rev (dropWhile is_C0_or_space (rev (dropWhile is_C0_or_space input))))"

definition url_query :: "string \<Rightarrow> string" where
  "url_query input =
     drop 1 (dropWhile (\<lambda>c. c \<noteq> CHR ''?'')
       (takeWhile (\<lambda>c. c \<noteq> CHR ''#'') (strip_url input)))"

definition searchParams :: "string \<Rightarrow> (string \<times> string) list" where
  "searchParams input = urlencoded_parse (url_query input)"

section \<open>OAuthFlow\<close>

record OAuthFlowConfig =
  clientId :: string
  clientSecret :: string
  redirectUri :: string
  apiUrl :: "string option"
  timeout :: "nat option"

record OAuthFlow =
  clientId :: string
  clientSecret :: string
  redirectUri :: string
  apiUrl :: string
  timeout :: nat

text \<open>
  The constructor: an empty or missing \<^verbatim>\<open>apiUrl\<close> is the default, one trailing slash
  is removed; a missing or zero \<^verbatim>\<open>timeout\<close> is 30000.
\<close>

definition new_OAuthFlow :: "OAuthFlowConfig \<Rightarrow> OAuthFlow" where
  "new_OAuthFlow config =
     (let url = (case OAuthFlowConfig.apiUrl config of
                   None \<Rightarrow> ''https://api.gaugid.com''
                 | Some u \<Rightarrow> if u = [] then ''https://api.gaugid.com'' else u)
      in \<lparr>clientId = OAuthFlowConfig.clientId config,
          clientSecret = OAuthFlowConfig.clientSecret config,
          redirectUri = OAuthFlowConfig.redirectUri config,
          apiUrl = (if url \<noteq> [] \<and> last url = CHR ''/'' then butlast url else url),
          timeout = (case OAuthFlowConfig.timeout config of
                       None \<Rightarrow> 30000
                     | Some t \<Rightarrow> if t = 0 then 30000 else t)\<rparr>)"

text \<open>\<^verbatim>\<open>Buffer.toString("base64url")\<close>: base64 with \<^verbatim>\<open>-\<close> and \<^verbatim>\<open>_\<close>, unpadded.\<close>

definition base64url_alphabet :: string where
  "base64url_alphabet = ''ABCDEFGHIJKLMNOPQRSTUVWXYZabcdefghijklmnopqrstuvwxyz0123456789-_''"

definition b64 :: "nat \<Rightarrow> char" where
  "b64 n = base64url_alphabet ! n"

fun base64url :: "8 word list \<Rightarrow> string" where
  "base64url (a # b # c # rest) =
     [b64 (unat a div 4),
      b64 (unat a mod 4 * 16 + unat b div 16),
      b64 (unat b mod 16 * 4 + unat c div 64),
      b64 (unat c mod 64)] @ base64url rest"
| "base64url [a, b] =
     [b64 (unat a div 4),
      b64 (unat a mod 4 * 16 + unat b div 16),
      b64 (unat b mod 16 * 4)]"
| "base64url [a] =
     [b64 (unat a div 4),
      b64 (unat a mod 4 * 16)]"
| "base64url [] = []"

text \<open>
  \<^verbatim>\<open>getAuthorizationUrl\<close>. \<open>randomBytes32\<close> is what \<^verbatim>\<open>randomBytes(32)\<close> returns
  when it is called, that is when no state or an empty one is passed.
\<close>

definition getAuthorizationUrl ::
  "OAuthFlow \<Rightarrow> string list \<Rightarrow> string option \<Rightarrow> 8 word list \<Rightarrow> string \<times> string" where
  "getAuthorizationUrl flow scopes_arg state_arg randomBytes32 =
     (let state = (case state_arg of
                     None \<Rightarrow> base64url randomBytes32
                   | Some s \<Rightarrow> if s = [] then base64url randomBytes32 else s);
          params = [(''client_id'', clientId flow),
                    (''redirect_uri'', redirectUri flow),
                    (''response_type'', ''code''),
                    (''scope'', join '','' scopes_arg),
                    (''state'', state)];
          authUrl = apiUrl flow @ ''/connect/authorize?'' @ urlencoded_serialize params
      in (authUrl, state))"

text \<open>
  \<^verbatim>\<open>parseAuthorizationResponse\<close>. \<open>parses\<close> says whether \<^verbatim>\<open>new URL(redirectUrl)\<close>
  accepts the text; it throws a \<^verbatim>\<open>TypeError\<close> otherwise. \<^verbatim>\<open>if (error)\<close> and
  \<^verbatim>\<open>if (!code)\<close> take the empty string as absent.
\<close>

definition parseAuthorizationResponse :: "bool \<Rightarrow> string \<Rightarrow> string \<Rightarrow> thrown + string" where
  "parseAuthorizationResponse parses redirectUrl expectedState =
     (if \<not> parses then Inl TypeError
      else
        let params = searchParams redirectUrl;
            after_error_check =
              (if params_get params ''state'' \<noteq> Some expectedState then
                 Inl (Gaugid (GaugidAuthError ''State mismatch in OAuth callback'' None))
               else
                 (case params_get params ''code'' of
                    None \<Rightarrow>
                      Inl (Gaugid (GaugidAuthError
                        ''Authorization code not found in redirect URL'' None))
                  | Some code \<Rightarrow>
                      if code = [] then
                        Inl (Gaugid (GaugidAuthError
                          ''Authorization code not found in redirect URL'' None))
                      else Inr code))
        in case params_get params ''error'' of
             None \<Rightarrow> after_error_check
           | Some error \<Rightarrow>
               if error = [] then after_error_check
               else
                 let errorDescription =
                       (case params_get params ''error_description'' of
                          None \<Rightarrow> [] | Some d \<Rightarrow> d)
                 in Inl (Gaugid (GaugidAuthError
                      (''OAuth error: '' @ error @ '' - '' @ errorDescription) None)))"

text \<open>
  \<^verbatim>\<open>OAuthTokenResponseSchema.parse\<close>: the zod object schema. Unknown keys are
  stripped; \<^verbatim>\<open>null\<close> is not accepted for an optional member; a record is rebuilt
  member by member, without a member named \<^verbatim>\<open>__proto__\<close>.
\<close>

record OAuthTokenResponse =
  access_token :: string
  token_type :: string
  expires_in :: string
  scope :: string
  connection_id :: "string option"
  user_did :: "string option"
  profiles :: "(string \<times> json) list list option"

fun zod_string :: "json option \<Rightarrow> string option" where
  "zod_string (Some (JStr s)) = Some s"
| "zod_string _ = None"

fun zod_number :: "json option \<Rightarrow> string option" where
  "zod_number (Some (JNum text)) = Some text"
| "zod_number _ = None"

fun zod_string_default :: "string \<Rightarrow> json option \<Rightarrow> string option" where
  "zod_string_default d None = Some d"
| "zod_string_default d (Some (JStr s)) = Some s"
| "zod_string_default d _ = None"

fun zod_string_optional :: "json option \<Rightarrow> string option option" where
  "zod_string_optional None = Some None"
| "zod_string_optional (Some (JStr s)) = Some (Some s)"
| "zod_string_optional _ = None"

fun zod_record :: "json \<Rightarrow> (string \<times> json) list option" where
  "zod_record (JObj members) = Some (filter (\<lambda>member. fst member \<noteq> ''__proto__'') members)"
| "zod_record _ = None"

fun zod_records_optional :: "json option \<Rightarrow> (string \<times> json) list list option option" where
  "zod_records_optional None = Some None"
| "zod_records_optional (Some (JArr elements)) = map_option Some (those (map zod_record elements))"
| "zod_records_optional _ = None"

definition OAuthTokenResponseSchema_parse :: "json \<Rightarrow> OAuthTokenResponse option" where
  "OAuthTokenResponseSchema_parse data =
     (case data of
        JObj members \<Rightarrow>
          Option.bind (zod_string (map_of members ''access_token'')) (\<lambda>a.
          Option.bind (zod_string_default ''Bearer'' (map_of members ''token_type'')) (\<lambda>t.
          Option.bind (zod_number (map_of members ''expires_in'')) (\<lambda>e.
          Option.bind (zod_string (map_of members ''scope'')) (\<lambda>s.
          Option.bind (zod_string_optional (map_of members ''connection_id'')) (\<lambda>c.
          Option.bind (zod_string_optional (map_of members ''user_did'')) (\<lambda>u.
          Option.bind (zod_records_optional (map_of members ''profiles'')) (\<lambda>p.
            Some \<lparr>access_token = a, token_type = t, expires_in = e, scope = s,
                  connection_id = c, user_did = u, profiles = p\<rparr>)))))))
      | _ \<Rightarrow> None)"

text \<open>
  The network: \<^verbatim>\<open>fetch\<close> answers a request with a response, is aborted by the
  timeout, or rejects. The body of a response is what \<^verbatim>\<open>response.json()\<close> gives,
  \<open>None\<close> when it rejects.
\<close>

record HttpRequest =
  request_url :: string
  request_method :: string
  request_headers :: "(string \<times> string) list"
  request_body :: json

datatype fetch_result = Responded HttpResponse | Aborted | Rejected string

definition exchangeCode_request :: "OAuthFlow \<Rightarrow> string \<Rightarrow> string option \<Rightarrow> HttpRequest" where
  "exchangeCode_request flow code state_arg =
     \<lparr>request_url = apiUrl flow @ ''/connect/token'',
      request_method = ''POST'',
      request_headers = [(''Content-Type'', ''application/json'')],
      request_body = JObj [(''grant_type'', JStr ''authorization_code''),
                           (''code'', JStr code),
                           (''client_id'', JStr (clientId flow)),
                           (''client_secret'', JStr (clientSecret flow)),
                           (''redirect_uri'', JStr (redirectUri flow))]\<rparr>"

text \<open>
  The message of the status-400 branch. A \<^verbatim>\<open>TypeError\<close> of
  \<^verbatim>\<open>errorData.error\<close> on \<^verbatim>\<open>null\<close> is caught there and leaves the default, as a
  missing member does. \<^verbatim>\<open>String(errorObj)\<close> is applied to a truthy value that is
  not an object, for which it does not throw.
\<close>

definition token_exchange_message :: "json option \<Rightarrow> json" where
  "token_exchange_message response_json =
     (let message = JStr ''Token exchange failed'' in
      case response_json of
        None \<Rightarrow> message
      | Some errorData \<Rightarrow>
          (case get_member errorData ''error'' of
             None \<Rightarrow> message
           | Some errorObj \<Rightarrow>
               if truthy errorObj \<and> typeof_object errorObj
               then or_else (get_member errorObj ''message'') message
               else if truthy errorObj then
                 (case to_string errorObj of None \<Rightarrow> message | Some s \<Rightarrow> JStr s)
               else message))"

text \<open>
  \<^verbatim>\<open>exchangeCode\<close>. The outer \<^verbatim>\<open>catch\<close> rethrows the SDK's authentication and
  API errors and wraps everything else.
\<close>

definition exchangeCode ::
  "OAuthFlow \<Rightarrow> (HttpRequest \<Rightarrow> fetch_result) \<Rightarrow> string \<Rightarrow> string option
     \<Rightarrow> GaugidError + OAuthTokenResponse" where
  "exchangeCode flow fetch code state_arg =
     (case fetch (exchangeCode_request flow code state_arg) of
        Aborted \<Rightarrow> Inl (GaugidConnectionError (RequestTimeout (timeout flow)))
      | Rejected err \<Rightarrow> Inl (GaugidConnectionError (FailedToConnect (FetchRejected err)))
      | Responded response \<Rightarrow>
          if status response = 401 then
            Inl (GaugidAuthError ''Invalid client credentials'' None)
          else if status response = 400 then
            (case to_string (token_exchange_message (body response)) of
               None \<Rightarrow> Inl (GaugidConnectionError (FailedToConnect ThrownTypeError))
             | Some message \<Rightarrow> Inl (GaugidAuthError message None))
          else if \<not> ok response then
            (case parseGaugidError response
                    (Some (case body response of None \<Rightarrow> JObj [] | Some d \<Rightarrow> d)) of
               Inl _ \<Rightarrow> Inl (GaugidConnectionError (FailedToConnect ThrownTypeError))
             | Inr error \<Rightarrow> Inl error)
          else
            (case body response of
               None \<Rightarrow> Inl (GaugidConnectionError (FailedToConnect BodyNotJson))
             | Some data \<Rightarrow>
                 (case OAuthTokenResponseSchema_parse data of
                    None \<Rightarrow> Inl (GaugidConnectionError (FailedToConnect SchemaViolation))
                  | Some tokenResponse \<Rightarrow> Inr tokenResponse)))"

section \<open>Token storage and connection manager\<close>

text \<open>
  \<^verbatim>\<open>ConnectionTokenInfo\<close> as the storage code handles it: an object whose members may
  each be missing (\<open>None\<close> is JavaScript's \<^verbatim>\<open>undefined\<close>). The schema declares
  \<^verbatim>\<open>token\<close> mandatory; it is optional here because \<^verbatim>\<open>getToken\<close> copies the
  members of whatever value the table lookup gave it, members that value may not have.
  \<^verbatim>\<open>expiresAt\<close> counts whole seconds since the epoch, as an exact natural number
  (the code holds a double, which is exact up to \<^verbatim>\<open>2^53\<close>); \<^verbatim>\<open>profiles\<close> holds
  opaque profile records of a type \<open>'p\<close>. A stored record has the member \<^verbatim>\<open>savedAt\<close> in addition.
\<close>

record 'p ConnectionTokenInfo =
  token :: "string option"
  expiresAt :: "nat option"
  scopes :: "string list option"
  connectionId :: "string option"
  userDid :: "string option"
  profiles :: "'p list option"

record 'p StoredToken = "'p ConnectionTokenInfo" +
  savedAt :: string

text \<open>
  The store file as \<^verbatim>\<open>loadTokens\<close> can find it: not there (\<^verbatim>\<open>existsSync\<close> is
  false), there but \<^verbatim>\<open>readFile\<close> or \<^verbatim>\<open>JSON.parse\<close> throws (with the text of the
  error), or holding the JSON text of an object of records, which is what
  \<^verbatim>\<open>saveTokens\<close> writes and what the cast in \<^verbatim>\<open>loadTokens\<close> declares. A write
  is taken to succeed; the file then parses to the object that was written.
\<close>

datatype 'p token_file =
    Missing
  | Unreadable string
  | Parsed "string \<rightharpoonup> 'p StoredToken"

text \<open>\<^verbatim>\<open>loadTokens\<close> returns the table and the warnings it logged.\<close>

definition loadTokens :: "'p token_file \<Rightarrow> (string \<rightharpoonup> 'p StoredToken) \<times> string list" where
  "loadTokens file =
     (case file of
        Missing \<Rightarrow> (Map.empty, [])
      | Unreadable err \<Rightarrow> (Map.empty, [''Failed to load tokens: '' @ err])
      | Parsed tokens \<Rightarrow> (tokens, []))"

definition saveTokens :: "(string \<rightharpoonup> 'p StoredToken) \<Rightarrow> 'p token_file" where
  "saveTokens tokens = Parsed tokens"

text \<open>
  \<^verbatim>\<open>saveToken\<close>; \<open>stamp\<close> is \<^verbatim>\<open>new Date().toISOString()\<close> at the call.
\<close>

definition saveToken ::
  "'p token_file \<Rightarrow> string \<Rightarrow> 'p ConnectionTokenInfo \<Rightarrow> string \<Rightarrow> 'p token_file" where
  "saveToken file cid tokenInfo stamp =
     (let tokens = fst (loadTokens file) in
      saveTokens (set_property tokens cid
        \<lparr>token = token tokenInfo,
         expiresAt = expiresAt tokenInfo,
         scopes = scopes tokenInfo,
         connectionId = connectionId tokenInfo,
         userDid = userDid tokenInfo,
         profiles = profiles tokenInfo,
         savedAt = stamp\<rparr>))"

text \<open>
  \<^verbatim>\<open>getToken\<close>: \<^verbatim>\<open>null\<close> (\<open>None\<close>) when the lookup is falsy, that is
  \<^verbatim>\<open>undefined\<close>; otherwise a fresh object with the six members of the value found.
  An inherited member of \<^verbatim>\<open>Object.prototype\<close> is truthy and has none of the six.
\<close>

definition getToken :: "'p token_file \<Rightarrow> string \<Rightarrow> 'p ConnectionTokenInfo option" where
  "getToken file cid =
     (let tokens = fst (loadTokens file) in
      case get_property tokens cid of
        Undefined \<Rightarrow> None
      | Inherited \<Rightarrow>
          Some \<lparr>token = None, expiresAt = None, scopes = Some [],
                connectionId = None, userDid = None, profiles = None\<rparr>
      | Own tokenData \<Rightarrow>
          Some \<lparr>token = token tokenData,
                expiresAt = expiresAt tokenData,
                scopes = Some (case scopes tokenData of None \<Rightarrow> [] | Some s \<Rightarrow> s),
                connectionId = connectionId tokenData,
                userDid = userDid tokenData,
                profiles = profiles tokenData\<rparr>)"

definition deleteToken :: "'p token_file \<Rightarrow> string \<Rightarrow> 'p token_file" where
  "deleteToken file cid =
     (let tokens = fst (loadTokens file) in
      saveTokens (delete_property tokens cid))"

text \<open>
  \<^verbatim>\<open>listConnections\<close> returns \<^verbatim>\<open>Object.keys(tokens)\<close>, an array without repetitions
  whose order is not specified; it is given here by its set of elements.
\<close>

definition listConnections :: "'p token_file \<Rightarrow> string set" where
  "listConnections file = Object_keys (fst (loadTokens file))"

text \<open>
  \<^verbatim>\<open>isTokenExpired\<close>; \<open>now\<close> is the clock reading of \<^verbatim>\<open>new Date()\<close> in
  milliseconds since the epoch. \<^verbatim>\<open>!tokenInfo.expiresAt\<close> holds for a missing member
  and for \<open>0\<close>. The time values of a \<^verbatim>\<open>Date\<close> end at 8.64e15 milliseconds:
  \<^verbatim>\<open>new Date(v)\<close> beyond that is an invalid date, and a comparison with it is false.
\<close>

definition max_time_value :: nat where
  "max_time_value = 8640000000000000"

definition isTokenExpired :: "'p token_file \<Rightarrow> nat \<Rightarrow> string \<Rightarrow> bool" where
  "isTokenExpired file now cid =
     (case getToken file cid of
        None \<Rightarrow> True
      | Some tokenInfo \<Rightarrow>
          (case expiresAt tokenInfo of
             None \<Rightarrow> True
           | Some e \<Rightarrow>
               if e = 0 then True
               else if max_time_value < e * 1000 then False
               else e * 1000 \<le> now))"

text \<open>
  \<^verbatim>\<open>getConnectionToken\<close> returns \<^verbatim>\<open>null\<close> or the \<^verbatim>\<open>token\<close> member, which is a
  string or, for an object without it, \<^verbatim>\<open>undefined\<close>.
\<close>

datatype js_string = JsNull | JsUndefined | JsString string

definition member_string :: "string option \<Rightarrow> js_string" where
  "member_string m = (case m of None \<Rightarrow> JsUndefined | Some s \<Rightarrow> JsString s)"

definition getConnectionToken :: "'p token_file \<Rightarrow> nat \<Rightarrow> string \<Rightarrow> js_string" where
  "getConnectionToken file now cid =
     (case getToken file cid of
        None \<Rightarrow> JsNull
      | Some tokenInfo \<Rightarrow>
          if isTokenExpired file now cid then JsNull
          else member_string (token tokenInfo))"

definition saveConnection ::
  "'p token_file \<Rightarrow> string \<Rightarrow> 'p ConnectionTokenInfo \<Rightarrow> string \<Rightarrow> 'p token_file" where
  "saveConnection file cid tokenInfo stamp = saveToken file cid tokenInfo stamp"

definition deleteConnection :: "'p token_file \<Rightarrow> string \<Rightarrow> 'p token_file" where
  "deleteConnection file cid = deleteToken file cid"

section \<open>Notions used in the statements\<close>

text \<open>
  A byte that a URL's query carries unchanged: not one of \<^verbatim>\<open>& # + %\<close>, and neither a
  control character nor a space.
\<close>

definition url_plain :: "char \<Rightarrow> bool" where
  "url_plain c = (c \<notin> set ''&#+%'' \<and> 32 < (of_char c :: nat))"

text \<open>
  A \<^verbatim>\<open>message\<close> member as the cast in \<^verbatim>\<open>parseGaugidError\<close> declares it: missing
  or a string; a falsy value (\<^verbatim>\<open>null\<close>, \<^verbatim>\<open>false\<close>, \<^verbatim>\<open>0\<close>) counts as missing, as it
  does for the code. \<open>base_message\<close> is the message before any description is
  appended: the member, else the status text, else \<^verbatim>\<open>Unknown error\<close>.
\<close>

definition textual :: "json option \<Rightarrow> bool" where
  "textual member =
     (case member of None \<Rightarrow> True | Some (JStr _) \<Rightarrow> True | Some j \<Rightarrow> \<not> truthy j)"

text \<open>
  The \<^verbatim>\<open>message\<close> member of the \<^verbatim>\<open>error\<close> member of a response body, where the
  body is JSON and has both.
\<close>

definition message_member :: "json option \<Rightarrow> json option" where
  "message_member response_json =
     (case response_json of
        None \<Rightarrow> None
      | Some errorData \<Rightarrow>
          (case get_member errorData ''error'' of
             None \<Rightarrow> None
           | Some errorObj \<Rightarrow> get_member errorObj ''message''))"

definition base_message :: "HttpResponse \<Rightarrow> json option \<Rightarrow> string" where
  "base_message response member =
     (case member of
        Some (JStr m) \<Rightarrow>
          if m \<noteq> [] then m
          else if statusText response \<noteq> [] then statusText response else ''Unknown error''
      | _ \<Rightarrow> if statusText response \<noteq> [] then statusText response else ''Unknown error'')"

text \<open>A network whose token endpoint answers every request with one response.\<close>

definition mocked_endpoint :: "HttpResponse \<Rightarrow> HttpRequest \<Rightarrow> fetch_result" where
  "mocked_endpoint response request = Responded response"

chapter \<open>Properties\<close>

section \<open>Token storage and connection manager\<close>

lemma getToken_own:
  "fst (loadTokens file) cid = Some r \<Longrightarrow>
   getToken file cid =
     Some \<lparr>token = token r, expiresAt = expiresAt r,
           scopes = Some (case scopes r of None \<Rightarrow> [] | Some s \<Rightarrow> s),
           connectionId = connectionId r, userDid = userDid r, profiles = profiles r\<rparr>"
  by (simp add: getToken_def get_property_def)

lemma getToken_not_own:
  "fst (loadTokens file) cid = None \<Longrightarrow>
   getToken file cid =
     (if cid \<in> set Object_prototype_names
      then Some \<lparr>token = None, expiresAt = None, scopes = Some [],
                 connectionId = None, userDid = None, profiles = None\<rparr>
      else None)"
  by (simp add: getToken_def get_property_def)

lemma isTokenExpired_not_own:
  "fst (loadTokens file) cid = None \<Longrightarrow> isTokenExpired file now cid"
  by (simp add: isTokenExpired_def getToken_not_own)

lemma isTokenExpired_own:
  "fst (loadTokens file) cid = Some r \<Longrightarrow>
   isTokenExpired file now cid =
     (case expiresAt r of
        None \<Rightarrow> True
      | Some e \<Rightarrow> e = 0 \<or> (e * 1000 \<le> max_time_value \<and> e * 1000 \<le> now))"
  by (auto simp: isTokenExpired_def getToken_own split: option.splits)

text \<open>
  C1. \<^verbatim>\<open>getConnectionToken\<close> returns \<^verbatim>\<open>null\<close> exactly when no record is stored
  under the id or \<^verbatim>\<open>isTokenExpired\<close> is true for it; otherwise it returns the
  \<^verbatim>\<open>token\<close> member of the stored record.
\<close>

theorem getConnectionToken_null_iff:
  "(getConnectionToken file now cid = JsNull) =
     (fst (loadTokens file) cid = None \<or> isTokenExpired file now cid)
   \<and> (\<forall>r. fst (loadTokens file) cid = Some r \<and> \<not> isTokenExpired file now cid \<longrightarrow>
          getConnectionToken file now cid = member_string (token r))"
proof (cases "fst (loadTokens file) cid")
  case None
  then have "isTokenExpired file now cid"
    by (rule isTokenExpired_not_own)
  then show ?thesis
    using None by (simp add: getConnectionToken_def split: option.splits)
next
  case (Some r)
  then show ?thesis
    by (simp add: getConnectionToken_def getToken_own member_string_def split: option.splits)
qed

theorem getConnectionToken_null_iff_witness:
  "getConnectionToken
     (Parsed [''svc1'' \<mapsto>
        \<lparr>token = Some ''t1'', expiresAt = Some 4600, scopes = Some [''a2p:preferences''],
         connectionId = None, userDid = None, profiles = (None :: unit list option),
         savedAt = ''1970-01-01T00:16:40.000Z''\<rparr>])
     1000000 ''svc1'' = JsString ''t1''
   \<and> getConnectionToken
     (Parsed [''svc1'' \<mapsto>
        \<lparr>token = Some ''t1'', expiresAt = Some 4600, scopes = Some [''a2p:preferences''],
         connectionId = None, userDid = None, profiles = (None :: unit list option),
         savedAt = ''1970-01-01T00:16:40.000Z''\<rparr>])
     4600000 ''svc1'' = JsNull"
  using getConnectionToken_null_iff
    [of "Parsed [''svc1'' \<mapsto>
        \<lparr>token = Some ''t1'', expiresAt = Some 4600, scopes = Some [''a2p:preferences''],
         connectionId = None, userDid = None, profiles = (None :: unit list option),
         savedAt = ''1970-01-01T00:16:40.000Z''\<rparr>]" 1000000 "''svc1''"]
    getConnectionToken_null_iff
    [of "Parsed [''svc1'' \<mapsto>
        \<lparr>token = Some ''t1'', expiresAt = Some 4600, scopes = Some [''a2p:preferences''],
         connectionId = None, userDid = None, profiles = (None :: unit list option),
         savedAt = ''1970-01-01T00:16:40.000Z''\<rparr>]" 4600000 "''svc1''"]
  by (simp add: loadTokens_def isTokenExpired_own max_time_value_def member_string_def)

text \<open>
  C2. \<^verbatim>\<open>isTokenExpired\<close> is true if and only if no record is stored under the id, or
  the record has no \<^verbatim>\<open>expiresAt\<close>, or the clock (milliseconds) is at or past
  \<^verbatim>\<open>expiresAt\<close> (seconds); in particular it is false for a record whose
  \<^verbatim>\<open>expiresAt\<close> lies strictly in the future. The clock reading is a time value of a
  \<^verbatim>\<open>Date\<close>, so at most \<open>max_time_value\<close>.
\<close>

theorem isTokenExpired_iff:
  assumes "now \<le> max_time_value"
  shows "isTokenExpired file now cid =
           (case fst (loadTokens file) cid of
              None \<Rightarrow> True
            | Some r \<Rightarrow> (case expiresAt r of None \<Rightarrow> True | Some e \<Rightarrow> e * 1000 \<le> now))
         \<and> (\<forall>r e. fst (loadTokens file) cid = Some r \<and> expiresAt r = Some e \<and> now < e * 1000
               \<longrightarrow> \<not> isTokenExpired file now cid)"
proof (cases "fst (loadTokens file) cid")
  case None
  then show ?thesis
    by (simp add: isTokenExpired_not_own)
next
  case (Some r)
  show ?thesis
  proof (cases "expiresAt r")
    case None
    with Some show ?thesis
      by (simp add: isTokenExpired_own)
  next
    case (Some e)
    with \<open>fst (loadTokens file) cid = Some r\<close> assms show ?thesis
      by (auto simp: isTokenExpired_own)
  qed
qed

theorem isTokenExpired_iff_witness:
  "(1000000::nat) \<le> max_time_value
   \<and> \<not> isTokenExpired
     (Parsed [''svc1'' \<mapsto>
        \<lparr>token = Some ''t1'', expiresAt = Some 4600, scopes = Some [''a2p:preferences''],
         connectionId = None, userDid = None, profiles = (None :: unit list option),
         savedAt = ''1970-01-01T00:16:40.000Z''\<rparr>])
     1000000 ''svc1''
   \<and> isTokenExpired
     (Parsed [''svc1'' \<mapsto>
        \<lparr>token = Some ''t1'', expiresAt = Some 4600, scopes = Some [''a2p:preferences''],
         connectionId = None, userDid = None, profiles = (None :: unit list option),
         savedAt = ''1970-01-01T00:16:40.000Z''\<rparr>])
     1000000 ''svc2''"
proof -
  have h: "(1000000::nat) \<le> max_time_value"
    by (simp add: max_time_value_def)
  show ?thesis
    using h
      isTokenExpired_iff [OF h, of "Parsed [''svc1'' \<mapsto>
        \<lparr>token = Some ''t1'', expiresAt = Some 4600, scopes = Some [''a2p:preferences''],
         connectionId = None, userDid = None, profiles = (None :: unit list option),
         savedAt = ''1970-01-01T00:16:40.000Z''\<rparr>]" "''svc1''"]
      isTokenExpired_iff [OF h, of "Parsed [''svc1'' \<mapsto>
        \<lparr>token = Some ''t1'', expiresAt = Some 4600, scopes = Some [''a2p:preferences''],
         connectionId = None, userDid = None, profiles = (None :: unit list option),
         savedAt = ''1970-01-01T00:16:40.000Z''\<rparr>]" "''svc2''"]
    by (simp add: loadTokens_def)
qed

subsection \<open>Saving and reading back\<close>

lemma loadTokens_saveTokens:
  "fst (loadTokens (saveTokens tokens)) = tokens"
  by (simp add: loadTokens_def saveTokens_def)

lemma loadTokens_saveToken:
  "fst (loadTokens (saveToken file cid tokenInfo stamp)) =
     set_property (fst (loadTokens file)) cid
       \<lparr>token = token tokenInfo, expiresAt = expiresAt tokenInfo, scopes = scopes tokenInfo,
        connectionId = connectionId tokenInfo, userDid = userDid tokenInfo,
        profiles = profiles tokenInfo, savedAt = stamp\<rparr>"
  by (simp add: saveToken_def loadTokens_saveTokens)

lemma loadTokens_deleteToken:
  "fst (loadTokens (deleteToken file cid)) = (fst (loadTokens file))(cid := None)"
  by (simp add: deleteToken_def delete_property_def loadTokens_saveTokens)

text \<open>
  The round trip of \<^verbatim>\<open>saveToken\<close> and \<^verbatim>\<open>getToken\<close>, for every id whose assignment
  creates an own member: every id but \<^verbatim>\<open>__proto__\<close>, and \<^verbatim>\<open>__proto__\<close> too when
  the file already has a record under it.
\<close>

lemma saveToken_getToken:
  assumes "cid \<noteq> ''__proto__'' \<or> fst (loadTokens file) cid \<noteq> None"
  shows "getToken (saveToken file cid tokenInfo stamp) cid =
           Some \<lparr>token = token tokenInfo, expiresAt = expiresAt tokenInfo,
                 scopes = Some (case scopes tokenInfo of None \<Rightarrow> [] | Some s \<Rightarrow> s),
                 connectionId = connectionId tokenInfo, userDid = userDid tokenInfo,
                 profiles = profiles tokenInfo\<rparr>"
proof -
  have "fst (loadTokens (saveToken file cid tokenInfo stamp)) cid =
          Some \<lparr>token = token tokenInfo, expiresAt = expiresAt tokenInfo,
                scopes = scopes tokenInfo, connectionId = connectionId tokenInfo,
                userDid = userDid tokenInfo, profiles = profiles tokenInfo,
                savedAt = stamp\<rparr>"
    using assms by (auto simp: loadTokens_saveToken set_property_def)
  then show ?thesis
    by (simp add: getToken_own)
qed

lemma saveToken_overwrites:
  assumes "cid \<noteq> ''__proto__''"
  shows "getToken (saveToken (saveToken file cid first stamp) cid second stamp') cid =
           Some \<lparr>token = token second, expiresAt = expiresAt second,
                 scopes = Some (case scopes second of None \<Rightarrow> [] | Some s \<Rightarrow> s),
                 connectionId = connectionId second, userDid = userDid second,
                 profiles = profiles second\<rparr>"
  using assms by (simp add: saveToken_getToken)

lemma saveToken_proto_no_member:
  "fst (loadTokens file) ''__proto__'' = None \<Longrightarrow>
   fst (loadTokens (saveToken file ''__proto__'' tokenInfo stamp)) = fst (loadTokens file)"
  by (simp add: loadTokens_saveToken set_property_def)

text \<open>
  C3. \<^verbatim>\<open>saveToken\<close> followed by \<^verbatim>\<open>getToken\<close> with the same id is to return the
  values that were saved, for every id. For the id \<^verbatim>\<open>__proto__\<close> it does not: the
  assignment in \<^verbatim>\<open>saveToken\<close> replaces the prototype of the table, nothing is
  written under the id, and \<^verbatim>\<open>getToken\<close> then finds \<^verbatim>\<open>Object.prototype\<close> and
  returns an object without the token.
\<close>

theorem saveToken_getToken_proto:
  "getToken
     (saveToken Missing ''__proto__''
        \<lparr>token = Some ''t1'', expiresAt = Some 4600, scopes = Some [''a2p:preferences''],
         connectionId = Some ''c1'', userDid = None, profiles = (None :: unit list option)\<rparr>
        ''1970-01-01T00:16:40.000Z'')
     ''__proto__''
   = Some \<lparr>token = None, expiresAt = None, scopes = Some [],
           connectionId = None, userDid = None, profiles = None\<rparr>
   \<and> listConnections
     (saveToken Missing ''__proto__''
        \<lparr>token = Some ''t1'', expiresAt = Some 4600, scopes = Some [''a2p:preferences''],
         connectionId = Some ''c1'', userDid = None, profiles = (None :: unit list option)\<rparr>
        ''1970-01-01T00:16:40.000Z'') = {}"
proof -
  let ?file = "saveToken Missing ''__proto__''
        \<lparr>token = Some ''t1'', expiresAt = Some 4600, scopes = Some [''a2p:preferences''],
         connectionId = Some ''c1'', userDid = None, profiles = (None :: unit list option)\<rparr>
        ''1970-01-01T00:16:40.000Z''"
  have "fst (loadTokens (Missing :: unit token_file)) ''__proto__'' = None"
    by (simp add: loadTokens_def)
  then have "fst (loadTokens ?file) = fst (loadTokens (Missing :: unit token_file))"
    by (rule saveToken_proto_no_member)
  then have tokens: "fst (loadTokens ?file) = Map.empty"
    by (simp add: loadTokens_def)
  have "getToken ?file ''__proto__''
          = Some \<lparr>token = None, expiresAt = None, scopes = Some [],
                  connectionId = None, userDid = None, profiles = None\<rparr>"
    by (simp add: getToken_not_own tokens Object_prototype_names_def)
  moreover have "listConnections ?file = {}"
    by (simp add: listConnections_def Object_keys_def tokens)
  ultimately show ?thesis
    by simp
qed

subsection \<open>Reading a missing or unreadable file\<close>

lemma read_degrades_to_empty:
  assumes "file = Missing \<or> file = Unreadable err"
  shows "getToken file cid = getToken (Parsed Map.empty) cid"
    and "listConnections file = {}"
    and "isTokenExpired file now cid"
    and "cid \<notin> set Object_prototype_names \<Longrightarrow> getToken file cid = None"
    and "snd (loadTokens Missing) = []"
    and "snd (loadTokens (Unreadable err)) = [''Failed to load tokens: '' @ err]"
  using assms
  by (auto simp: getToken_def listConnections_def Object_keys_def loadTokens_def
      get_property_def isTokenExpired_def)

text \<open>
  C7. With the store file missing or unreadable the read operations are to behave as on
  an empty store, \<^verbatim>\<open>getToken\<close> returning \<^verbatim>\<open>null\<close> for every id. They do behave
  as on an empty store and never fail, but on an empty store \<^verbatim>\<open>getToken\<close> does not
  return \<^verbatim>\<open>null\<close> for a name of \<^verbatim>\<open>Object.prototype\<close> such as
  \<^verbatim>\<open>constructor\<close>.
\<close>

theorem getToken_missing_constructor:
  "getToken (Missing :: unit token_file) ''constructor''
     = Some \<lparr>token = None, expiresAt = None, scopes = Some [],
             connectionId = None, userDid = None, profiles = None\<rparr>
   \<and> getToken (Unreadable ''SyntaxError: Unexpected end of JSON input'' :: unit token_file)
       ''constructor''
     = Some \<lparr>token = None, expiresAt = None, scopes = Some [],
             connectionId = None, userDid = None, profiles = None\<rparr>"
  by (simp add: getToken_def loadTokens_def get_property_def Object_prototype_names_def)

subsection \<open>Deleting, and what the writes leave alone\<close>

lemma deleteToken_getToken:
  "getToken (deleteToken file cid) cid =
     (if cid \<in> set Object_prototype_names
      then Some \<lparr>token = None, expiresAt = None, scopes = Some [],
                 connectionId = None, userDid = None, profiles = None\<rparr>
      else None)"
  by (simp add: getToken_not_own loadTokens_deleteToken)

lemma deleteToken_listConnections:
  "listConnections (deleteToken file cid) = listConnections file - {cid}"
  by (auto simp: listConnections_def Object_keys_def loadTokens_deleteToken)

lemma deleteToken_frame:
  "k \<noteq> cid \<Longrightarrow> getToken (deleteToken file cid) k = getToken file k"
  by (simp add: getToken_def get_property_def loadTokens_deleteToken)

lemma saveToken_frame:
  "k \<noteq> cid \<Longrightarrow> getToken (saveToken file cid tokenInfo stamp) k = getToken file k"
  by (simp add: getToken_def get_property_def loadTokens_saveToken set_property_def)

text \<open>
  C9. \<^verbatim>\<open>deleteToken\<close> is to make a following \<^verbatim>\<open>getToken\<close> of the same id return
  \<^verbatim>\<open>null\<close>. After a record saved under \<^verbatim>\<open>constructor\<close> is deleted,
  \<^verbatim>\<open>getToken\<close> finds the inherited member of that name and returns an object.
\<close>

theorem deleteToken_getToken_constructor:
  "getToken
     (deleteToken
        (saveToken Missing ''constructor''
           \<lparr>token = Some ''t1'', expiresAt = Some 4600, scopes = Some [''a2p:preferences''],
            connectionId = None, userDid = None, profiles = (None :: unit list option)\<rparr>
           ''1970-01-01T00:16:40.000Z'')
        ''constructor'')
     ''constructor''
   = Some \<lparr>token = None, expiresAt = None, scopes = Some [],
           connectionId = None, userDid = None, profiles = None\<rparr>"
  by (simp add: deleteToken_getToken Object_prototype_names_def)

section \<open>Form encoding\<close>

lemma of_char_hex_digit:
  "k < 16 \<Longrightarrow> (of_char (hex_digit k) :: nat) = (if k < 10 then 48 + k else 55 + k)"
  by (simp add: hex_digit_def)

lemma hex_value_digit: "k < 16 \<Longrightarrow> hex_value (hex_digit k) = k"
  by (simp add: hex_value_def of_char_hex_digit)

lemma is_hex_digit: "k < 16 \<Longrightarrow> is_hex (hex_digit k)"
  by (simp add: is_hex_def of_char_hex_digit)

lemma hex_digit_not_plus: "k < 16 \<Longrightarrow> hex_digit k \<noteq> CHR ''+''"
proof
  assume "k < 16" and "hex_digit k = CHR ''+''"
  then have "(if k < 10 then 48 + k else 55 + k) = (of_char (CHR ''+'') :: nat)"
    using of_char_hex_digit [of k] by simp
  then show False
    by (simp split: if_splits)
qed

lemma percent_decode_other:
  "c \<noteq> CHR ''%'' \<Longrightarrow> percent_decode (c # s) = c # percent_decode s"
  by (cases s rule: percent_decode.cases) auto

lemma percent_decode_escape:
  "is_hex h1 \<Longrightarrow> is_hex h2 \<Longrightarrow>
   percent_decode (CHR ''%'' # h1 # h2 # s) = char_of (hex_value h1 * 16 + hex_value h2) # percent_decode s"
  by simp

lemma decode_byte:
  "percent_decode (plus_to_space (urlencoded_byte c @ s)) = c # percent_decode (plus_to_space s)"
proof -
  consider "c = CHR '' ''" | "c \<noteq> CHR '' ''" "unreserved c" | "c \<noteq> CHR '' ''" "\<not> unreserved c"
    by blast
  then show ?thesis
  proof cases
    case 1
    then show ?thesis
      by (simp add: urlencoded_byte_def plus_to_space_def percent_decode_other)
  next
    case 2
    then have "c \<noteq> CHR ''%''" "c \<noteq> CHR ''+''"
      by (auto simp: unreserved_def)
    with 2 show ?thesis
      by (simp add: urlencoded_byte_def plus_to_space_def percent_decode_other)
  next
    case 3
    let ?h = "hex_digit (of_char c div 16)" and ?l = "hex_digit (of_char c mod 16)"
    have d: "(of_char c :: nat) div 16 < 16"
      using nat_of_char_less_256 [of c] by arith
    have m: "(of_char c :: nat) mod 16 < 16" by simp
    have "plus_to_space (urlencoded_byte c @ s) = CHR ''%'' # ?h # ?l # plus_to_space s"
      using 3 hex_digit_not_plus [OF d] hex_digit_not_plus [OF m]
      by (simp add: urlencoded_byte_def plus_to_space_def)
    moreover have "char_of (hex_value ?h * 16 + hex_value ?l) = c"
      by (simp add: hex_value_digit [OF d] hex_value_digit [OF m])
    ultimately show ?thesis
      using is_hex_digit [OF d] is_hex_digit [OF m] by simp
  qed
qed

lemma decode_encoded: "percent_decode (plus_to_space (urlencoded_string s)) = s"
proof (induction s)
  case Nil
  show ?case by (simp add: urlencoded_string_def plus_to_space_def)
next
  case (Cons c s)
  have "urlencoded_string (c # s) = urlencoded_byte c @ urlencoded_string s"
    by (simp add: urlencoded_string_def)
  then show ?case
    using Cons.IH by (simp add: decode_byte)
qed

lemma split_on_not_Nil: "split_on sep s \<noteq> []"
  by (induction s) (auto split: list.splits)

lemma split_on_no_sep: "sep \<notin> set s \<Longrightarrow> split_on sep s = [s]"
  by (induction s) auto

lemma split_on_append:
  "sep \<notin> set x \<Longrightarrow> split_on sep (x @ sep # rest) = x # split_on sep rest"
  by (induction x) auto

lemma url_plain_simps:
  "url_plain c \<Longrightarrow> c \<noteq> CHR ''&''"
  "url_plain c \<Longrightarrow> c \<noteq> CHR ''#''"
  "url_plain c \<Longrightarrow> c \<noteq> CHR ''+''"
  "url_plain c \<Longrightarrow> c \<noteq> CHR ''%''"
  "url_plain c \<Longrightarrow> \<not> is_C0_or_space c"
  "url_plain c \<Longrightarrow> \<not> is_tab_or_newline c"
  by (auto simp: url_plain_def is_C0_or_space_def is_tab_or_newline_def)

lemma percent_decode_plain:
  "CHR ''%'' \<notin> set s \<Longrightarrow> percent_decode s = s"
  by (induction s) (auto simp: percent_decode_other)

lemma plus_to_space_plain:
  "CHR ''+'' \<notin> set s \<Longrightarrow> plus_to_space s = s"
  by (induction s) (auto simp: plus_to_space_def)

lemma decode_plain:
  assumes "\<forall>c\<in>set s. url_plain c"
  shows "percent_decode (plus_to_space s) = s"
proof -
  have "\<not> url_plain CHR ''+''" "\<not> url_plain CHR ''%''"
    by (simp_all add: url_plain_def)
  then have "CHR ''+'' \<notin> set s" "CHR ''%'' \<notin> set s"
    using assms by blast+
  then show ?thesis
    by (simp add: plus_to_space_plain percent_decode_plain)
qed

lemma strip_tail_kept:
  assumes "xs \<noteq> []" and "\<not> P (last xs)"
  shows "rev (dropWhile P (rev xs)) = xs"
  using assms by (cases xs rule: rev_cases) auto

lemma strip_url_appended:
  assumes tail: "tail \<noteq> []" "\<not> is_C0_or_space (hd tail)" "\<not> is_C0_or_space (last tail)"
      "\<forall>c\<in>set tail. \<not> is_tab_or_newline c"
  shows "strip_url (base @ tail) =
           filter (\<lambda>c. \<not> is_tab_or_newline c) (dropWhile is_C0_or_space base) @ tail"
proof -
  obtain t ts where t: "tail = t # ts"
    using tail(1) by (cases tail) auto
  have front: "dropWhile is_C0_or_space (base @ tail) = dropWhile is_C0_or_space base @ tail"
    using tail(2) t by (simp add: dropWhile_append3)
  have "last (dropWhile is_C0_or_space base @ tail) = last tail"
    using tail(1) by simp
  then have "rev (dropWhile is_C0_or_space (rev (dropWhile is_C0_or_space base @ tail)))
               = dropWhile is_C0_or_space base @ tail"
    using tail(1,3) by (intro strip_tail_kept) auto
  moreover have "filter (\<lambda>c. \<not> is_tab_or_newline c) tail = tail"
    using tail(4) by (simp add: filter_id_conv)
  ultimately show ?thesis
    by (simp add: strip_url_def front)
qed

lemma url_query_appended:
  assumes base: "CHR ''?'' \<notin> set base" "CHR ''#'' \<notin> set base"
    and q: "\<not> is_C0_or_space (last (CHR ''?'' # q))" "\<forall>c\<in>set q. \<not> is_tab_or_newline c"
      "CHR ''#'' \<notin> set q"
  shows "url_query (base @ CHR ''?'' # q) = q"
proof -
  let ?b = "filter (\<lambda>c. \<not> is_tab_or_newline c) (dropWhile is_C0_or_space base)"
  have b: "CHR ''?'' \<notin> set ?b" "CHR ''#'' \<notin> set ?b"
    using base by (auto dest: set_dropWhileD)
  have 1: "strip_url (base @ CHR ''?'' # q) = ?b @ CHR ''?'' # q"
    using q by (intro strip_url_appended)
      (auto simp: is_C0_or_space_def is_tab_or_newline_def)
  have 2: "takeWhile (\<lambda>c. c \<noteq> CHR ''#'') (?b @ CHR ''?'' # q) = ?b @ CHR ''?'' # q"
    using b q(3) by (intro takeWhile_eq_all_conv [THEN iffD2]) auto
  have 3: "dropWhile (\<lambda>c. c \<noteq> CHR ''?'') (?b @ CHR ''?'' # q) = CHR ''?'' # q"
    using b(1) by (subst dropWhile_append2) auto
  show ?thesis
    unfolding url_query_def 1 2 3 by simp
qed

lemma parse_code_state:
  assumes "\<forall>c\<in>set C. url_plain c" and "\<forall>c\<in>set S. url_plain c"
  shows "urlencoded_parse (''code='' @ C @ ''&state='' @ S) = [(''code'', C), (''state'', S)]"
proof -
  have amp: "CHR ''&'' \<notin> set (''code='' @ C)" "CHR ''&'' \<notin> set (''state='' @ S)"
    using assms url_plain_simps(1) by auto
  have "split_on CHR ''&'' ((''code='' @ C) @ CHR ''&'' # (''state='' @ S))
          = (''code='' @ C) # split_on CHR ''&'' (''state='' @ S)"
    using amp(1) by (rule split_on_append)
  also have "split_on CHR ''&'' (''state='' @ S) = [''state='' @ S]"
    using amp(2) by (rule split_on_no_sep)
  finally have "split_on CHR ''&'' (''code='' @ C @ ''&state='' @ S)
               = [''code='' @ C, ''state='' @ S]"
    by simp
  moreover have "parse_pair (''code='' @ C) = (''code'', C)"
    using decode_plain [OF assms(1)] by (simp add: parse_pair_def plus_to_space_def)
  moreover have "parse_pair (''state='' @ S) = (''state'', S)"
    using decode_plain [OF assms(2)] by (simp add: parse_pair_def plus_to_space_def)
  ultimately show ?thesis
    by (simp add: urlencoded_parse_def)
qed

lemma searchParams_code_state:
  assumes "CHR ''?'' \<notin> set base" and "CHR ''#'' \<notin> set base"
    and "\<forall>c\<in>set C. url_plain c" and "\<forall>c\<in>set S. url_plain c"
  shows "searchParams (base @ ''?code='' @ C @ ''&state='' @ S) = [(''code'', C), (''state'', S)]"
proof -
  let ?q = "''code='' @ C @ ''&state='' @ S"
  have last: "\<not> is_C0_or_space (last (CHR ''?'' # ?q))"
    using assms(4) url_plain_simps(5) by (cases "S = []") (auto simp: is_C0_or_space_def)
  have all: "\<forall>c\<in>set ?q. \<not> is_tab_or_newline c"
    using assms(3,4) url_plain_simps(6) by (auto simp: is_tab_or_newline_def)
  have hash: "CHR ''#'' \<notin> set ?q"
    using assms(3,4) url_plain_simps(2) by auto
  have "url_query (base @ CHR ''?'' # ?q) = ?q"
    using assms(1,2) last all hash by (intro url_query_appended)
  moreover have "base @ ''?code='' @ C @ ''&state='' @ S = base @ CHR ''?'' # ?q"
    by simp
  ultimately have "url_query (base @ ''?code='' @ C @ ''&state='' @ S) = ?q"
    by (simp only:)
  then show ?thesis
    unfolding searchParams_def by (simp only: parse_code_state [OF assms(3,4)])
qed

text \<open>Parsing undoes serialising, for all names and values.\<close>

lemma urlencoded_byte_no_separator:
  assumes "x \<in> set (urlencoded_byte c)"
  shows "x \<noteq> CHR ''&'' \<and> x \<noteq> CHR ''='' \<and> x \<noteq> CHR ''#'' \<and> 32 < (of_char x :: nat)"
proof -
  have hex: "k < 16 \<Longrightarrow> hex_digit k \<noteq> CHR ''&'' \<and> hex_digit k \<noteq> CHR ''=''
      \<and> hex_digit k \<noteq> CHR ''#'' \<and> 32 < (of_char (hex_digit k) :: nat)" for k
    using of_char_hex_digit [of k] by (auto split: if_splits)
  have d: "(of_char c :: nat) div 16 < 16"
    using nat_of_char_less_256 [of c] by arith
  have m: "(of_char c :: nat) mod 16 < 16"
    by simp
  consider "c = CHR '' ''" | "c \<noteq> CHR '' ''" "unreserved c" | "c \<noteq> CHR '' ''" "\<not> unreserved c"
    by blast
  then show ?thesis
  proof cases
    case 1
    with assms show ?thesis
      by (simp add: urlencoded_byte_def)
  next
    case 2
    with assms have "x = c"
      by (simp add: urlencoded_byte_def)
    with 2 have "(of_char x :: nat) \<notin> {38, 61, 35} \<and> 32 < (of_char x :: nat)"
      by (auto simp: unreserved_def Let_def)
    then show ?thesis
      by auto
  next
    case 3
    with assms have "x = CHR ''%'' \<or> x = hex_digit (of_char c div 16) \<or> x = hex_digit (of_char c mod 16)"
      by (simp add: urlencoded_byte_def)
    then show ?thesis
      using hex [OF d] hex [OF m] by auto
  qed
qed

lemma urlencoded_string_no_separator:
  "x \<in> set (urlencoded_string s) \<Longrightarrow>
   x \<noteq> CHR ''&'' \<and> x \<noteq> CHR ''='' \<and> x \<noteq> CHR ''#'' \<and> 32 < (of_char x :: nat)"
  using urlencoded_byte_no_separator by (auto simp: urlencoded_string_def)

lemma urlencoded_serialize_simps:
  "urlencoded_serialize [] = []"
  "urlencoded_serialize [p] = urlencoded_pair p"
  "urlencoded_serialize (p # q # ps) = urlencoded_pair p @ CHR ''&'' # urlencoded_serialize (q # ps)"
  by (simp_all add: urlencoded_serialize_def)

lemma parse_pair_encoded: "parse_pair (urlencoded_pair p) = p"
proof -
  let ?n = "urlencoded_string (fst p)" and ?v = "urlencoded_string (snd p)"
  have n: "\<forall>x\<in>set ?n. x \<noteq> CHR ''=''"
    using urlencoded_string_no_separator by blast
  have "takeWhile (\<lambda>c. c \<noteq> CHR ''='') (?n @ CHR ''='' # ?v) = ?n"
    using n by (simp add: takeWhile_append2)
  moreover have "dropWhile (\<lambda>c. c \<noteq> CHR ''='') (?n @ CHR ''='' # ?v) = CHR ''='' # ?v"
    using n by (simp add: dropWhile_append2)
  ultimately show ?thesis
    by (simp add: parse_pair_def urlencoded_pair_def decode_encoded)
qed

lemma urlencoded_pair_plain:
  "urlencoded_pair p \<noteq> []"
  "CHR ''&'' \<notin> set (urlencoded_pair p)"
  using urlencoded_string_no_separator by (auto simp: urlencoded_pair_def)

lemma urlencoded_roundtrip: "urlencoded_parse (urlencoded_serialize pairs) = pairs"
proof (induction pairs)
  case Nil
  show ?case
    by (simp add: urlencoded_serialize_simps urlencoded_parse_def)
next
  case (Cons p ps)
  show ?case
  proof (cases ps)
    case Nil
    then show ?thesis
      by (simp add: urlencoded_serialize_simps urlencoded_parse_def split_on_no_sep
          urlencoded_pair_plain parse_pair_encoded)
  next
    case (Cons q qs)
    have "split_on CHR ''&'' (urlencoded_pair p @ CHR ''&'' # urlencoded_serialize ps)
            = urlencoded_pair p # split_on CHR ''&'' (urlencoded_serialize ps)"
      using urlencoded_pair_plain(2) by (rule split_on_append)
    then have "urlencoded_parse (urlencoded_serialize (p # ps))
                 = parse_pair (urlencoded_pair p) # urlencoded_parse (urlencoded_serialize ps)"
      using Cons by (simp add: urlencoded_serialize_simps urlencoded_parse_def urlencoded_pair_plain)
    then show ?thesis
      using Cons.IH by (simp add: parse_pair_encoded)
  qed
qed

lemma urlencoded_serialize_chars:
  "x \<in> set (urlencoded_serialize pairs) \<Longrightarrow> x \<noteq> CHR ''#'' \<and> 32 < (of_char x :: nat)"
proof (induction pairs rule: induct_list012)
  case 1
  then show ?case by (simp add: urlencoded_serialize_simps)
next
  case (2 p)
  then show ?case
    using urlencoded_string_no_separator
    by (auto simp: urlencoded_serialize_simps urlencoded_pair_def)
next
  case (3 p q ps)
  then show ?case
    using urlencoded_string_no_separator
    by (auto simp: urlencoded_serialize_simps urlencoded_pair_def)
qed

lemma searchParams_serialized:
  assumes "CHR ''?'' \<notin> set base" and "CHR ''#'' \<notin> set base"
  shows "searchParams (base @ ''?'' @ urlencoded_serialize pairs) = pairs"
proof -
  let ?q = "urlencoded_serialize pairs"
  have chars: "\<forall>x\<in>set ?q. x \<noteq> CHR ''#'' \<and> 32 < (of_char x :: nat)"
    using urlencoded_serialize_chars by blast
  have "\<not> is_C0_or_space (last (CHR ''?'' # ?q))"
  proof (cases "?q = []")
    case True
    then show ?thesis
      by (simp add: is_C0_or_space_def)
  next
    case False
    then have "last (CHR ''?'' # ?q) \<in> set ?q"
      by simp
    then have "32 < (of_char (last (CHR ''?'' # ?q)) :: nat)"
      using chars by blast
    then show ?thesis
      by (simp add: is_C0_or_space_def)
  qed
  moreover have "\<forall>c\<in>set ?q. \<not> is_tab_or_newline c"
  proof
    fix c
    assume "c \<in> set ?q"
    then have "32 < (of_char c :: nat)"
      using chars by blast
    then show "\<not> is_tab_or_newline c"
      by (auto simp: is_tab_or_newline_def)
  qed
  moreover have "CHR ''#'' \<notin> set ?q"
    using chars by blast
  ultimately have "url_query (base @ CHR ''?'' # ?q) = ?q"
    using assms by (intro url_query_appended)
  then show ?thesis
    by (simp add: searchParams_def urlencoded_roundtrip)
qed

section \<open>The authorization redirect\<close>

text \<open>
  C5, as amended. For a redirect URL the parser accepts:
  \<^verbatim>\<open>parseAuthorizationResponse\<close> returns exactly \<open>C\<close> for the URL
  \<^verbatim>\<open>base?code=C&state=S\<close> and the expected state \<open>S\<close> when \<open>base\<close> has neither
  \<^verbatim>\<open>?\<close> nor \<^verbatim>\<open>#\<close>, \<open>C\<close> is not empty and \<open>C\<close> and \<open>S\<close> consist of bytes that
  a query carries unchanged; whenever the state parameter of the URL is missing or
  differs from the expected state it fails with an authentication error; with a
  non-empty \<^verbatim>\<open>error\<close> parameter it fails with the authentication error whose message
  is made of \<^verbatim>\<open>error\<close> and \<^verbatim>\<open>error_description\<close>; and without a
  \<^verbatim>\<open>code\<close> parameter it fails with an authentication error.
\<close>

theorem parseAuthorizationResponse_amended:
  "(CHR ''?'' \<notin> set base \<and> CHR ''#'' \<notin> set base \<and> C \<noteq> []
      \<and> (\<forall>c\<in>set C. url_plain c) \<and> (\<forall>c\<in>set S. url_plain c)
      \<longrightarrow> parseAuthorizationResponse True (base @ ''?code='' @ C @ ''&state='' @ S) S = Inr C)
   \<and> (params_get (searchParams url) ''state'' \<noteq> Some expected
      \<longrightarrow> (\<exists>m. parseAuthorizationResponse True url expected
                 = Inl (Gaugid (GaugidAuthError m None))))
   \<and> (\<forall>e. params_get (searchParams url) ''error'' = Some e \<and> e \<noteq> []
      \<longrightarrow> parseAuthorizationResponse True url expected
            = Inl (Gaugid (GaugidAuthError
                (''OAuth error: '' @ e @ '' - '' @
                   (case params_get (searchParams url) ''error_description'' of
                      None \<Rightarrow> [] | Some d \<Rightarrow> d)) None)))
   \<and> (params_get (searchParams url) ''code'' = None
      \<longrightarrow> (\<exists>m. parseAuthorizationResponse True url expected
                 = Inl (Gaugid (GaugidAuthError m None))))"
proof (intro conjI impI allI)
  assume "CHR ''?'' \<notin> set base \<and> CHR ''#'' \<notin> set base \<and> C \<noteq> []
      \<and> (\<forall>c\<in>set C. url_plain c) \<and> (\<forall>c\<in>set S. url_plain c)"
  then have "searchParams (base @ ''?code='' @ C @ ''&state='' @ S) = [(''code'', C), (''state'', S)]"
    and "C \<noteq> []"
    using searchParams_code_state [of base C S] by blast+
  then show "parseAuthorizationResponse True (base @ ''?code='' @ C @ ''&state='' @ S) S = Inr C"
    by (simp add: parseAuthorizationResponse_def params_get_def)
next
  assume "params_get (searchParams url) ''state'' \<noteq> Some expected"
  then show "\<exists>m. parseAuthorizationResponse True url expected
                 = Inl (Gaugid (GaugidAuthError m None))"
    by (simp add: parseAuthorizationResponse_def Let_def split: option.splits)
next
  fix e
  assume "params_get (searchParams url) ''error'' = Some e \<and> e \<noteq> []"
  then show "parseAuthorizationResponse True url expected
            = Inl (Gaugid (GaugidAuthError
                (''OAuth error: '' @ e @ '' - '' @
                   (case params_get (searchParams url) ''error_description'' of
                      None \<Rightarrow> [] | Some d \<Rightarrow> d)) None))"
    by (simp add: parseAuthorizationResponse_def Let_def)
next
  assume "params_get (searchParams url) ''code'' = None"
  then show "\<exists>m. parseAuthorizationResponse True url expected
                 = Inl (Gaugid (GaugidAuthError m None))"
    by (simp add: parseAuthorizationResponse_def Let_def split: option.splits)
qed

lemma searchParams_example1:
  "searchParams ''https://myapp.com/callback?error=access_denied&error_description=user+said+no&state=other''
     = [(''error'', ''access_denied''), (''error_description'', ''user said no''), (''state'', ''other'')]"
  by code_simp

theorem parseAuthorizationResponse_amended_witness:
  "parseAuthorizationResponse True ''https://myapp.com/callback?code=abc123&state=xyz'' ''xyz''
     = Inr ''abc123''
   \<and> parseAuthorizationResponse True
       ''https://myapp.com/callback?error=access_denied&error_description=user+said+no&state=other''
       ''xyz''
     = Inl (Gaugid (GaugidAuthError ''OAuth error: access_denied - user said no'' None))"
proof -
  have plain: "\<forall>c\<in>set ''abc123''. url_plain c" "\<forall>c\<in>set ''xyz''. url_plain c"
    by (simp_all add: url_plain_def)
  have base: "CHR ''?'' \<notin> set ''https://myapp.com/callback''"
    "CHR ''#'' \<notin> set ''https://myapp.com/callback''"
    by simp_all
  show ?thesis
    using plain base searchParams_example1
      parseAuthorizationResponse_amended
        [of "''https://myapp.com/callback''" "''abc123''" "''xyz''"
            "''https://myapp.com/callback?error=access_denied&error_description=user+said+no&state=other''"
            "''xyz''"]
    by (simp add: params_get_def)
qed

text \<open>
  The claim as stated, for every code and state string, fails: \<^verbatim>\<open>+\<close> in the code
  comes back as a space, an empty code is reported as missing, and an empty
  \<^verbatim>\<open>error\<close> parameter is not an error.
\<close>

theorem parseAuthorizationResponse_counterexample:
  "parseAuthorizationResponse True
     (''https://myapp.com/callback'' @ ''?code='' @ ''a+b'' @ ''&state='' @ ''xyz'') ''xyz''
     \<noteq> Inr ''a+b''
   \<and> parseAuthorizationResponse True
     (''https://myapp.com/callback'' @ ''?code='' @ ''a+b'' @ ''&state='' @ ''xyz'') ''xyz''
     = Inr ''a b''
   \<and> parseAuthorizationResponse True
     (''https://myapp.com/callback'' @ ''?code='' @ [] @ ''&state='' @ ''xyz'') ''xyz''
     = Inl (Gaugid (GaugidAuthError ''Authorization code not found in redirect URL'' None))
   \<and> parseAuthorizationResponse True
     ''https://myapp.com/callback?error=&code=abc123&state=xyz'' ''xyz''
     = Inr ''abc123''"
  by code_simp

section \<open>The authorization URL\<close>

lemma length_alphabet: "length base64url_alphabet = 64"
  by (simp add: base64url_alphabet_def)

lemma distinct_alphabet: "distinct base64url_alphabet"
  by (simp add: base64url_alphabet_def)

lemma b64_inj: "m < 64 \<Longrightarrow> n < 64 \<Longrightarrow> b64 m = b64 n \<Longrightarrow> m = n"
  using distinct_alphabet length_alphabet by (simp add: b64_def nth_eq_iff_index_eq)

lemma b64_mem: "n < 64 \<Longrightarrow> b64 n \<in> set base64url_alphabet"
  by (simp add: b64_def length_alphabet)

lemma unat_byte: "unat (a :: 8 word) < 256"
  using unsigned_less [of a, where ?'a = nat] by simp

lemma sextets:
  "unat (a :: 8 word) div 4 < 64"
  "unat a mod 4 * 16 + unat (b :: 8 word) div 16 < 64"
  "unat b mod 16 * 4 + unat (c :: 8 word) div 64 < 64"
  "unat c mod 64 < 64"
  "unat a mod 4 * 16 < 64"
  "unat b mod 16 * 4 < 64"
proof -
  have "unat a < 256" "unat b < 256" "unat c < 256"
    by (rule unat_byte)+
  then have "unat a div 4 < 64" "unat b div 16 < 16" "unat c div 64 < 4"
    by simp_all
  moreover have "unat a mod 4 < 4" "unat b mod 16 < 16"
    by simp_all
  ultimately show
    "unat a div 4 < 64"
    "unat a mod 4 * 16 + unat b div 16 < 64"
    "unat b mod 16 * 4 + unat c div 64 < 64"
    "unat c mod 64 < 64"
    "unat a mod 4 * 16 < 64"
    "unat b mod 16 * 4 < 64"
    by simp_all
qed

lemma base64url_alphabet_only: "set (base64url bytes) \<subseteq> set base64url_alphabet"
  by (induction bytes rule: base64url.induct) (simp_all add: b64_mem sextets)

lemma length_base64url: "length (base64url bytes) = (4 * length bytes + 2) div 3"
  by (induction bytes rule: base64url.induct) simp_all

lemma digits_eq:
  fixes p q p' q' :: nat
  assumes "q < k" "q' < k" "p * k + q = p' * k + q'"
  shows "p = p' \<and> q = q'"
proof -
  have "(p * k + q) div k = p" "(p' * k + q') div k = p'"
    using assms(1,2) by simp_all
  then have "p = p'"
    using assms(3) by simp
  then show ?thesis
    using assms(3) by simp
qed

lemma byte_eq_by_parts:
  fixes a a' :: nat
  assumes "a div k = a' div k" "a mod k = a' mod k"
  shows "a = a'"
  by (metis assms div_mult_mod_eq)

lemma bytes_of_sextets:
  fixes a b c a' b' c' :: nat
  assumes "b < 256" "c < 256" "b' < 256" "c' < 256"
    and "a div 4 = a' div 4"
    and "a mod 4 * 16 + b div 16 = a' mod 4 * 16 + b' div 16"
    and "b mod 16 * 4 + c div 64 = b' mod 16 * 4 + c' div 64"
    and "c mod 64 = c' mod 64"
  shows "a = a' \<and> b = b' \<and> c = c'"
proof -
  have k: "b div 16 < 16" "b' div 16 < 16" "c div 64 < 4" "c' div 64 < 4"
    using assms(1-4) by simp_all
  have 1: "a mod 4 = a' mod 4 \<and> b div 16 = b' div 16"
    using k(1,2) assms(6) by (rule digits_eq)
  have 2: "b mod 16 = b' mod 16 \<and> c div 64 = c' div 64"
    using k(3,4) assms(7) by (rule digits_eq)
  have "a = a'"
    using assms(5) 1 by (intro byte_eq_by_parts [of a 4 a']) simp_all
  moreover have "b = b'"
    using 1 2 by (intro byte_eq_by_parts [of b 16 b']) simp_all
  moreover have "c = c'"
    using assms(8) 2 by (intro byte_eq_by_parts [of c 64 c']) simp_all
  ultimately show ?thesis
    by simp
qed

lemma base64url_inj:
  "length xs = length ys \<Longrightarrow> base64url xs = base64url ys \<Longrightarrow> xs = ys"
proof (induction xs arbitrary: ys rule: base64url.induct)
  case (1 a b c rest)
  then obtain a' b' c' rest' where ys: "ys = a' # b' # c' # rest'" "length rest = length rest'"
    by (cases ys rule: base64url.cases) auto
  from "1.prems"(2) ys have eq:
    "b64 (unat a div 4) = b64 (unat a' div 4)"
    "b64 (unat a mod 4 * 16 + unat b div 16) = b64 (unat a' mod 4 * 16 + unat b' div 16)"
    "b64 (unat b mod 16 * 4 + unat c div 64) = b64 (unat b' mod 16 * 4 + unat c' div 64)"
    "b64 (unat c mod 64) = b64 (unat c' mod 64)"
    "base64url rest = base64url rest'"
    by simp_all
  have d: "unat a div 4 = unat a' div 4"
    using eq(1) by (rule b64_inj [rotated 2]) (rule sextets)+
  have e: "unat a mod 4 * 16 + unat b div 16 = unat a' mod 4 * 16 + unat b' div 16"
    using eq(2) by (rule b64_inj [rotated 2]) (rule sextets)+
  have f: "unat b mod 16 * 4 + unat c div 64 = unat b' mod 16 * 4 + unat c' div 64"
    using eq(3) by (rule b64_inj [rotated 2]) (rule sextets)+
  have g: "unat c mod 64 = unat c' mod 64"
    using eq(4) by (rule b64_inj [rotated 2]) (rule sextets)+
  have "unat a = unat a' \<and> unat b = unat b' \<and> unat c = unat c'"
    using unat_byte [of b] unat_byte [of c] unat_byte [of b'] unat_byte [of c'] d e f g
    by (rule bytes_of_sextets)
  then have "a = a' \<and> b = b' \<and> c = c'"
    by (simp add: word_unat_eq_iff)
  moreover have "rest = rest'"
    using "1.IH" ys(2) eq(5) by simp
  ultimately show ?case
    using ys(1) by simp
next
  case (2 a b)
  then obtain a' b' where ys: "ys = [a', b']"
    by (cases ys rule: base64url.cases) auto
  from "2.prems"(2) ys have eq:
    "b64 (unat a div 4) = b64 (unat a' div 4)"
    "b64 (unat a mod 4 * 16 + unat b div 16) = b64 (unat a' mod 4 * 16 + unat b' div 16)"
    "b64 (unat b mod 16 * 4) = b64 (unat b' mod 16 * 4)"
    by simp_all
  have d: "unat a div 4 = unat a' div 4"
    using eq(1) by (rule b64_inj [rotated 2]) (rule sextets)+
  have e: "unat a mod 4 * 16 + unat b div 16 = unat a' mod 4 * 16 + unat b' div 16"
    using eq(2) by (rule b64_inj [rotated 2]) (rule sextets)+
  have "unat b mod 16 * 4 = unat b' mod 16 * 4"
    using eq(3) by (rule b64_inj [rotated 2]) (rule sextets)+
  then have f: "unat b mod 16 * 4 + (0::nat) div 64 = unat b' mod 16 * 4 + (0::nat) div 64"
    by simp
  have "unat a = unat a' \<and> unat b = unat b' \<and> (0::nat) = 0"
    using unat_byte [of b] _ unat_byte [of b'] _ d e f
    by (rule bytes_of_sextets) simp_all
  then show ?case
    using ys by (simp add: word_unat_eq_iff)
next
  case (3 a)
  then obtain a' where ys: "ys = [a']"
    by (cases ys rule: base64url.cases) auto
  from "3.prems"(2) ys have eq:
    "b64 (unat a div 4) = b64 (unat a' div 4)"
    "b64 (unat a mod 4 * 16) = b64 (unat a' mod 4 * 16)"
    by simp_all
  have d: "unat a div 4 = unat a' div 4"
    using eq(1) by (rule b64_inj [rotated 2]) (rule sextets)+
  have "unat a mod 4 * 16 = unat a' mod 4 * 16"
    using eq(2) by (rule b64_inj [rotated 2]) (rule sextets)+
  then have m: "unat a mod 4 = unat a' mod 4"
    by simp
  have "unat a = unat a'"
    using d m by (rule byte_eq_by_parts)
  then show ?case
    using ys by (simp add: word_unat_eq_iff)
next
  case 4
  then show ?case by simp
qed

text \<open>
  C6. Called without a state, on the 32 bytes that \<^verbatim>\<open>randomBytes\<close> drew,
  \<^verbatim>\<open>getAuthorizationUrl\<close> returns the URL \<^verbatim>\<open>apiUrl/connect/authorize?query\<close> whose
  query parses to \<^verbatim>\<open>client_id\<close>, \<^verbatim>\<open>redirect_uri\<close>, \<^verbatim>\<open>response_type=code\<close>,
  \<^verbatim>\<open>scope\<close> equal to \<^verbatim>\<open>scopes.join(",")\<close> and \<^verbatim>\<open>state\<close> (and so does the
  URL itself when \<^verbatim>\<open>apiUrl\<close> has no \<^verbatim>\<open>?\<close> and no \<^verbatim>\<open>#\<close>), together with
  the state, which is the base64url text of the bytes: 43 characters of the URL-safe
  alphabet, and a different text for different bytes.
\<close>

theorem getAuthorizationUrl_without_state:
  assumes "length bytes = 32"
  shows "\<exists>query.
      getAuthorizationUrl flow scopes_arg None bytes
        = (apiUrl flow @ ''/connect/authorize?'' @ query, base64url bytes)
    \<and> urlencoded_parse query
        = [(''client_id'', clientId flow), (''redirect_uri'', redirectUri flow),
           (''response_type'', ''code''), (''scope'', join '','' scopes_arg),
           (''state'', base64url bytes)]
    \<and> (CHR ''?'' \<notin> set (apiUrl flow) \<and> CHR ''#'' \<notin> set (apiUrl flow) \<longrightarrow>
         searchParams (fst (getAuthorizationUrl flow scopes_arg None bytes))
           = [(''client_id'', clientId flow), (''redirect_uri'', redirectUri flow),
              (''response_type'', ''code''), (''scope'', join '','' scopes_arg),
              (''state'', base64url bytes)])
    \<and> base64url bytes \<noteq> []
    \<and> length (base64url bytes) = 43
    \<and> set (base64url bytes) \<subseteq> set base64url_alphabet
    \<and> (\<forall>bytes'. length bytes' = 32 \<and> bytes' \<noteq> bytes \<longrightarrow>
          snd (getAuthorizationUrl flow scopes_arg None bytes')
            \<noteq> snd (getAuthorizationUrl flow scopes_arg None bytes))"
proof -
  let ?params = "[(''client_id'', clientId flow), (''redirect_uri'', redirectUri flow),
           (''response_type'', ''code''), (''scope'', join '','' scopes_arg),
           (''state'', base64url bytes)]"
  have result: "getAuthorizationUrl flow scopes_arg None b
        = (apiUrl flow @ ''/connect/authorize?'' @
             urlencoded_serialize
               [(''client_id'', clientId flow), (''redirect_uri'', redirectUri flow),
                (''response_type'', ''code''), (''scope'', join '','' scopes_arg),
                (''state'', base64url b)],
           base64url b)" for b
    by (simp add: getAuthorizationUrl_def Let_def)
  have len: "length (base64url bytes) = 43"
    using assms by (simp add: length_base64url)
  have inj: "snd (getAuthorizationUrl flow scopes_arg None bytes')
          \<noteq> snd (getAuthorizationUrl flow scopes_arg None bytes)"
    if "length bytes' = 32 \<and> bytes' \<noteq> bytes" for bytes'
    using that assms base64url_inj [of bytes' bytes] by (auto simp: result)
  have sp: "searchParams (fst (getAuthorizationUrl flow scopes_arg None bytes)) = ?params"
    if "CHR ''?'' \<notin> set (apiUrl flow) \<and> CHR ''#'' \<notin> set (apiUrl flow)"
  proof -
    have "searchParams ((apiUrl flow @ ''/connect/authorize'') @ ''?'' @ urlencoded_serialize ?params)
            = ?params"
      using that by (intro searchParams_serialized) auto
    then show ?thesis
      by (simp add: result)
  qed
  show ?thesis
  proof (intro exI conjI)
    show "getAuthorizationUrl flow scopes_arg None bytes
        = (apiUrl flow @ ''/connect/authorize?'' @ urlencoded_serialize ?params, base64url bytes)"
      by (rule result)
    show "urlencoded_parse (urlencoded_serialize ?params) = ?params"
      by (rule urlencoded_roundtrip)
    show "base64url bytes \<noteq> []"
      using len by auto
    show "length (base64url bytes) = 43"
      by (rule len)
    show "set (base64url bytes) \<subseteq> set base64url_alphabet"
      by (rule base64url_alphabet_only)
  qed (use inj sp in blast)+
qed

theorem getAuthorizationUrl_without_state_witness:
  "length (replicate 32 (0 :: 8 word)) = 32
   \<and> snd (getAuthorizationUrl
       (new_OAuthFlow \<lparr>OAuthFlowConfig.clientId = ''my-service'', clientSecret = ''secret'',
          redirectUri = ''https://myapp.com/callback'', apiUrl = None, timeout = None\<rparr>)
       [''a2p:preferences'', ''a2p:interests''] None (replicate 32 0))
     = ''AAAAAAAAAAAAAAAAAAAAAAAAAAAAAAAAAAAAAAAAAAA''
   \<and> searchParams (fst (getAuthorizationUrl
       (new_OAuthFlow \<lparr>OAuthFlowConfig.clientId = ''my-service'', clientSecret = ''secret'',
          redirectUri = ''https://myapp.com/callback'', apiUrl = None, timeout = None\<rparr>)
       [''a2p:preferences'', ''a2p:interests''] None (replicate 32 0)))
     = [(''client_id'', ''my-service''), (''redirect_uri'', ''https://myapp.com/callback''),
        (''response_type'', ''code''), (''scope'', ''a2p:preferences,a2p:interests''),
        (''state'', ''AAAAAAAAAAAAAAAAAAAAAAAAAAAAAAAAAAAAAAAAAAA'')]
   \<and> snd (getAuthorizationUrl
       (new_OAuthFlow \<lparr>OAuthFlowConfig.clientId = ''my-service'', clientSecret = ''secret'',
          redirectUri = ''https://myapp.com/callback'', apiUrl = None, timeout = None\<rparr>)
       [''a2p:preferences'', ''a2p:interests''] None (replicate 32 1))
     \<noteq> ''AAAAAAAAAAAAAAAAAAAAAAAAAAAAAAAAAAAAAAAAAAA''"
proof -
  let ?flow = "new_OAuthFlow \<lparr>OAuthFlowConfig.clientId = ''my-service'', clientSecret = ''secret'',
          redirectUri = ''https://myapp.com/callback'', apiUrl = None, timeout = None\<rparr>"
  have h: "length (replicate 32 (0 :: 8 word)) = 32"
    by simp
  have flow: "apiUrl ?flow = ''https://api.gaugid.com''" "clientId ?flow = ''my-service''"
    "redirectUri ?flow = ''https://myapp.com/callback''"
    by (simp_all add: new_OAuthFlow_def)
  have other: "length (replicate 32 (1 :: 8 word)) = 32 \<and> replicate 32 (1 :: 8 word) \<noteq> replicate 32 0"
    by simp
  let ?scopes = "[''a2p:preferences'', ''a2p:interests'']"
  let ?state = "''AAAAAAAAAAAAAAAAAAAAAAAAAAAAAAAAAAAAAAAAAAA''"
  from getAuthorizationUrl_without_state [OF h, of ?flow ?scopes]
  obtain query where
    q: "getAuthorizationUrl ?flow ?scopes None (replicate 32 0)
          = (apiUrl ?flow @ ''/connect/authorize?'' @ query, base64url (replicate 32 0))"
    and sp: "CHR ''?'' \<notin> set (apiUrl ?flow) \<and> CHR ''#'' \<notin> set (apiUrl ?flow) \<longrightarrow>
         searchParams (fst (getAuthorizationUrl ?flow ?scopes None (replicate 32 0)))
           = [(''client_id'', clientId ?flow), (''redirect_uri'', redirectUri ?flow),
              (''response_type'', ''code''), (''scope'', join '','' ?scopes),
              (''state'', base64url (replicate 32 0))]"
    and inj: "\<forall>bytes'. length bytes' = 32 \<and> bytes' \<noteq> replicate 32 0 \<longrightarrow>
          snd (getAuthorizationUrl ?flow ?scopes None bytes')
            \<noteq> snd (getAuthorizationUrl ?flow ?scopes None (replicate 32 0))"
    by blast
  have st: "base64url (replicate 32 (0 :: 8 word)) = ?state"
    by code_simp
  have 1: "snd (getAuthorizationUrl ?flow ?scopes None (replicate 32 0)) = ?state"
    by (simp only: q st snd_conv)
  have "CHR ''?'' \<notin> set (apiUrl ?flow) \<and> CHR ''#'' \<notin> set (apiUrl ?flow)"
    by (simp add: flow)
  with sp have 2: "searchParams (fst (getAuthorizationUrl ?flow ?scopes None (replicate 32 0)))
           = [(''client_id'', ''my-service''), (''redirect_uri'', ''https://myapp.com/callback''),
              (''response_type'', ''code''), (''scope'', ''a2p:preferences,a2p:interests''),
              (''state'', ?state)]"
    by (simp add: flow st)
  have 3: "snd (getAuthorizationUrl ?flow ?scopes None (replicate 32 1)) \<noteq> ?state"
    using inj other 1 by metis
  show ?thesis
    using h 1 2 3 by blast
qed

section \<open>The shared error parser\<close>

lemma ERROR_CODES_nonempty: "map_of ERROR_CODES c = Some d \<Longrightarrow> d \<noteq> []"
  by (auto simp: ERROR_CODES_def split: if_splits)

lemma ERROR_CODES_no_empty_key: "map_of ERROR_CODES [] = None"
  by (simp add: ERROR_CODES_def)

lemma auth_code_iff: "(Some (JStr c) \<in> Some ` JStr ` set auth_codes) = (c \<in> set auth_codes)"
  by auto

lemma or_else_textual:
  "textual member \<Longrightarrow>
   or_else member (JStr (if statusText response \<noteq> [] then statusText response else ''Unknown error''))
     = JStr (base_message response member)"
  by (auto simp: textual_def or_else_def base_message_def split: option.splits json.splits)

lemma parseGaugidError_string_code:
  assumes "get_member d ''error'' = Some (JObj e)"
    and "map_of e ''code'' = Some (JStr c)"
    and "textual (map_of e ''message'')"
  shows "parseGaugidError response (Some d) =
           (let base = base_message response (map_of e ''message'');
                text = (if c = [] then base
                        else case get_property (map_of ERROR_CODES) c of
                          Undefined \<Rightarrow> base
                        | Inherited \<Rightarrow>
                            if sublist (Object_prototype_text c) base then base
                            else base @ '' ('' @ Object_prototype_text c @ '')''
                        | Own description \<Rightarrow>
                            if description = [] \<or> sublist description base then base
                            else base @ '' ('' @ description @ '')'')
            in if c \<in> set auth_codes then Inr (GaugidAuthError text (Some (JStr c)))
               else Inr (GaugidAPIError text (Some (JStr c)) (status response) (Some d)))"
  using assms
  by (auto simp: parseGaugidError_def Let_def or_else_textual with_description_def auth_code_iff
      split: property.splits)

text \<open>
  C8, as amended. For an error response whose \<^verbatim>\<open>error\<close> member is an object with a
  message that is missing, falsy or a string: when its code is a string of the table
  \<^verbatim>\<open>ERROR_CODES\<close>, the parser appends the description of the code to the message
  unless the message contains it, and returns an authentication error exactly for
  \<^verbatim>\<open>A2P001\<close>, \<^verbatim>\<open>A2P019\<close>, \<^verbatim>\<open>A2P020\<close> and \<^verbatim>\<open>A2P021\<close>; every other string
  code, and a missing code, gives an API error with the status and the response data.
\<close>

theorem parseGaugidError_codes:
  assumes "get_member d ''error'' = Some (JObj e)"
    and "textual (map_of e ''message'')"
  shows "(\<forall>c description.
            map_of e ''code'' = Some (JStr c) \<and> map_of ERROR_CODES c = Some description \<longrightarrow>
            parseGaugidError response (Some d) =
              (let base = base_message response (map_of e ''message'');
                   text = (if sublist description base then base
                           else base @ '' ('' @ description @ '')'')
               in if c \<in> set auth_codes then Inr (GaugidAuthError text (Some (JStr c)))
                  else Inr (GaugidAPIError text (Some (JStr c)) (status response) (Some d))))
       \<and> (\<forall>c. map_of e ''code'' = Some (JStr c) \<and> c \<notin> set auth_codes \<longrightarrow>
            (\<exists>text. parseGaugidError response (Some d) =
               Inr (GaugidAPIError text (Some (JStr c)) (status response) (Some d))))
       \<and> (map_of e ''code'' = None \<longrightarrow>
            parseGaugidError response (Some d) =
              Inr (GaugidAPIError (base_message response (map_of e ''message'')) None
                     (status response) (Some d)))"
proof (intro conjI allI impI)
  fix c description
  assume h: "map_of e ''code'' = Some (JStr c) \<and> map_of ERROR_CODES c = Some description"
  then have "description \<noteq> []"
    using ERROR_CODES_nonempty by blast
  moreover have "c \<noteq> []"
    using h ERROR_CODES_no_empty_key by auto
  moreover have "get_property (map_of ERROR_CODES) c = Own description"
    using h by (simp add: get_property_def)
  ultimately show "parseGaugidError response (Some d) =
              (let base = base_message response (map_of e ''message'');
                   text = (if sublist description base then base
                           else base @ '' ('' @ description @ '')'')
               in if c \<in> set auth_codes then Inr (GaugidAuthError text (Some (JStr c)))
                  else Inr (GaugidAPIError text (Some (JStr c)) (status response) (Some d)))"
    using h parseGaugidError_string_code [OF assms(1) _ assms(2), of c response]
    by (simp add: Let_def)
next
  fix c
  assume "map_of e ''code'' = Some (JStr c) \<and> c \<notin> set auth_codes"
  then show "\<exists>text. parseGaugidError response (Some d) =
               Inr (GaugidAPIError text (Some (JStr c)) (status response) (Some d))"
    using parseGaugidError_string_code [OF assms(1) _ assms(2), of c response]
    by (simp add: Let_def)
next
  assume "map_of e ''code'' = None"
  then show "parseGaugidError response (Some d) =
              Inr (GaugidAPIError (base_message response (map_of e ''message'')) None
                     (status response) (Some d))"
    using assms by (simp add: parseGaugidError_def Let_def or_else_textual)
qed

theorem parseGaugidError_codes_witness:
  "parseGaugidError \<lparr>status = 403, statusText = ''Forbidden'', body = None\<rparr>
     (Some (JObj [(''error'',
        JObj [(''code'', JStr ''A2P019''), (''message'', JStr ''Token rejected'')])]))
   = Inr (GaugidAuthError ''Token rejected (Invalid or expired connection token)''
            (Some (JStr ''A2P019'')))
   \<and> parseGaugidError \<lparr>status = 404, statusText = ''Not Found'', body = None\<rparr>
     (Some (JObj [(''error'', JObj [(''code'', JStr ''A2P003'')])]))
   = Inr (GaugidAPIError ''Not Found (Profile not found)'' (Some (JStr ''A2P003'')) 404
            (Some (JObj [(''error'', JObj [(''code'', JStr ''A2P003'')])])))"
proof -
  let ?e = "[(''code'', JStr ''A2P019''), (''message'', JStr ''Token rejected'')]"
  let ?d = "JObj [(''error'', JObj ?e)]"
  let ?r = "\<lparr>status = 403, statusText = ''Forbidden'', body = None\<rparr>"
  let ?e' = "[(''code'', JStr ''A2P003'')]"
  let ?d' = "JObj [(''error'', JObj ?e')]"
  let ?r' = "\<lparr>status = 404, statusText = ''Not Found'', body = None\<rparr>"
  have 1: "get_member ?d ''error'' = Some (JObj ?e)" "get_member ?d' ''error'' = Some (JObj ?e')"
    by simp_all
  have 2: "textual (map_of ?e ''message'')" "textual (map_of ?e' ''message'')"
    by (simp_all add: textual_def)
  have 3: "map_of ?e ''code'' = Some (JStr ''A2P019'')
             \<and> map_of ERROR_CODES ''A2P019'' = Some ''Invalid or expired connection token''"
    "map_of ?e' ''code'' = Some (JStr ''A2P003'')
             \<and> map_of ERROR_CODES ''A2P003'' = Some ''Profile not found''"
    by (simp_all add: ERROR_CODES_def)
  have 4: "\<not> sublist ''Invalid or expired connection token'' ''Token rejected''"
    "\<not> sublist ''Profile not found'' ''Not Found''"
    by (simp_all add: sublist_Cons_right prefix_def)
  from parseGaugidError_codes [OF 1(1) 2(1), of ?r] 3(1)
  have "parseGaugidError ?r (Some ?d) =
          (let base = base_message ?r (map_of ?e ''message'');
               text = (if sublist ''Invalid or expired connection token'' base then base
                       else base @ '' ('' @ ''Invalid or expired connection token'' @ '')'')
           in if ''A2P019'' \<in> set auth_codes then Inr (GaugidAuthError text (Some (JStr ''A2P019'')))
              else Inr (GaugidAPIError text (Some (JStr ''A2P019'')) (status ?r) (Some ?d)))"
    by blast
  moreover from parseGaugidError_codes [OF 1(2) 2(2), of ?r'] 3(2)
  have "parseGaugidError ?r' (Some ?d') =
          (let base = base_message ?r' (map_of ?e' ''message'');
               text = (if sublist ''Profile not found'' base then base
                       else base @ '' ('' @ ''Profile not found'' @ '')'')
           in if ''A2P003'' \<in> set auth_codes then Inr (GaugidAuthError text (Some (JStr ''A2P003'')))
              else Inr (GaugidAPIError text (Some (JStr ''A2P003'')) (status ?r') (Some ?d')))"
    by blast
  ultimately show ?thesis
    using 4 by (simp add: base_message_def auth_codes_def)
qed

text \<open>
  The claim as stated, for every error response that carries a code, fails: the
  \<^verbatim>\<open>message\<close> member is cast to a string and not checked, and for the number
  \<^verbatim>\<open>42\<close> or for \<^verbatim>\<open>true\<close>, which have no method \<^verbatim>\<open>includes\<close>, the parser throws a
  \<^verbatim>\<open>TypeError\<close> and returns neither an API error nor an authentication error.
\<close>

theorem parseGaugidError_counterexample:
  "parseGaugidError \<lparr>status = 429, statusText = ''Too Many Requests'', body = None\<rparr>
     (Some (JObj [(''error'', JObj [(''code'', JStr ''A2P023''), (''message'', JNum ''42'')])]))
   = Inl TypeError
   \<and> parseGaugidError \<lparr>status = 401, statusText = ''Unauthorized'', body = None\<rparr>
     (Some (JObj [(''error'', JObj [(''code'', JStr ''A2P001''), (''message'', JBool True)])]))
   = Inl TypeError"
  by code_simp

section \<open>The code exchange\<close>

lemma schema_needs_access_token:
  "get_member data ''access_token'' = None \<Longrightarrow> OAuthTokenResponseSchema_parse data = None"
  by (cases data) (simp_all add: OAuthTokenResponseSchema_parse_def)

lemma exchangeCode_responded:
  assumes "fetch (exchangeCode_request flow code state_arg) = Responded response"
  shows "exchangeCode flow fetch code state_arg =
           (if status response = 401 then
              Inl (GaugidAuthError ''Invalid client credentials'' None)
            else if status response = 400 then
              (case to_string (token_exchange_message (body response)) of
                 None \<Rightarrow> Inl (GaugidConnectionError (FailedToConnect ThrownTypeError))
               | Some message \<Rightarrow> Inl (GaugidAuthError message None))
            else if \<not> ok response then
              (case parseGaugidError response
                      (Some (case body response of None \<Rightarrow> JObj [] | Some d \<Rightarrow> d)) of
                 Inl _ \<Rightarrow> Inl (GaugidConnectionError (FailedToConnect ThrownTypeError))
               | Inr error \<Rightarrow> Inl error)
            else
              (case body response of
                 None \<Rightarrow> Inl (GaugidConnectionError (FailedToConnect BodyNotJson))
               | Some data \<Rightarrow>
                   (case OAuthTokenResponseSchema_parse data of
                      None \<Rightarrow> Inl (GaugidConnectionError (FailedToConnect SchemaViolation))
                    | Some tokenResponse \<Rightarrow> Inr tokenResponse)))"
  using assms by (simp add: exchangeCode_def)

lemma exchangeCode_success_example:
  "exchangeCode flow
     (\<lambda>request. Responded \<lparr>status = 200, statusText = ''OK'',
        body = Some (JObj [(''access_token'', JStr ''gaugid_conn_xxx''),
                           (''expires_in'', JNum ''3600''),
                           (''scope'', JStr ''a2p:preferences'')])\<rparr>)
     code state_arg
   = Inr \<lparr>access_token = ''gaugid_conn_xxx'', token_type = ''Bearer'', expires_in = ''3600'',
           scope = ''a2p:preferences'', connection_id = None, user_did = None,
           profiles = None\<rparr>"
  by (simp add: exchangeCode_def ok_def OAuthTokenResponseSchema_parse_def)

lemma to_string_scalar: "\<not> typeof_object v \<Longrightarrow> \<exists>str. to_string v = Some str"
  by (cases v) simp_all

lemma unprintable_is_object: "to_string m = None \<Longrightarrow> truthy m \<and> typeof_object m"
  by (cases m) simp_all

lemma get_member_is_object: "get_member v key = Some m \<Longrightarrow> truthy v \<and> typeof_object v"
  by (cases v) simp_all

lemma token_exchange_message_unprintable:
  assumes "message_member response_json = Some m" and "to_string m = None"
  shows "token_exchange_message response_json = m"
proof -
  from assms(1) obtain d v where d: "response_json = Some d"
    and v: "get_member d ''error'' = Some v" and m: "get_member v ''message'' = Some m"
    by (auto simp: message_member_def split: option.splits)
  from m have "truthy v \<and> typeof_object v"
    by (rule get_member_is_object)
  moreover from assms(2) have "truthy m"
    using unprintable_is_object by blast
  ultimately show ?thesis
    using d v m by (simp add: token_exchange_message_def or_else_def)
qed

lemma token_exchange_message_printable:
  assumes "\<forall>m. message_member response_json = Some m \<longrightarrow> to_string m \<noteq> None"
  shows "\<exists>str. to_string (token_exchange_message response_json) = Some str"
proof (cases response_json)
  case None
  then show ?thesis
    by (simp add: token_exchange_message_def)
next
  case (Some d)
  show ?thesis
  proof (cases "get_member d ''error''")
    case None
    then show ?thesis
      using Some by (simp add: token_exchange_message_def)
  next
    case v: (Some v)
    show ?thesis
    proof (cases "truthy v \<and> typeof_object v")
      case True
      show ?thesis
      proof (cases "get_member v ''message''")
        case None
        then show ?thesis
          using Some v True by (simp add: token_exchange_message_def or_else_def)
      next
        case m: (Some m)
        then have "message_member response_json = Some m"
          using Some v by (simp add: message_member_def)
        then have "to_string m \<noteq> None"
          using assms by blast
        then show ?thesis
          using Some v True m by (auto simp: token_exchange_message_def or_else_def)
      qed
    next
      case False
      show ?thesis
      proof (cases "truthy v")
        case True
        then have "\<not> typeof_object v"
          using False by simp
        then obtain str where "to_string v = Some str"
          using to_string_scalar by blast
        then show ?thesis
          using Some v True False by (simp add: token_exchange_message_def)
      next
        case False
        then show ?thesis
          using Some v by (simp add: token_exchange_message_def)
      qed
    qed
  qed
qed

text \<open>
  C4, as amended. When the token endpoint answers:

  \<^item> a status 401 makes \<^verbatim>\<open>exchangeCode\<close> fail with the authentication error
    \<^verbatim>\<open>Invalid client credentials\<close>;

  \<^item> a status 400 makes it fail with an authentication error, whatever the body,
    unless the body has an \<^verbatim>\<open>error\<close> with a \<^verbatim>\<open>message\<close> that has no string form
    (an object with a member \<^verbatim>\<open>toString\<close>, or an array that holds one): then it
    fails with a connection error for the \<^verbatim>\<open>TypeError\<close>;

  \<^item> the message of that authentication error is the string form of what the server
    supplied: of the \<^verbatim>\<open>message\<close> of the \<^verbatim>\<open>error\<close> object when that is truthy, of
    the \<^verbatim>\<open>error\<close> itself when that is truthy and not an object; and it is
    \<^verbatim>\<open>Token exchange failed\<close> when the body is not JSON, has no \<^verbatim>\<open>error\<close> or a
    falsy one, or an \<^verbatim>\<open>error\<close> object with no \<^verbatim>\<open>message\<close> or a falsy one;

  \<^item> a status 200 whose JSON body has no \<^verbatim>\<open>access_token\<close> makes it fail with a
    connection error for the schema violation.
\<close>

theorem exchangeCode_errors:
  assumes "fetch (exchangeCode_request flow code state_arg) = Responded response"
  shows "(status response = 401 \<longrightarrow>
            exchangeCode flow fetch code state_arg
              = Inl (GaugidAuthError ''Invalid client credentials'' None))
       \<and> (status response = 400 \<longrightarrow>
            ((\<forall>m. message_member (body response) = Some m \<longrightarrow> to_string m \<noteq> None) \<longrightarrow>
               (\<exists>message. exchangeCode flow fetch code state_arg
                  = Inl (GaugidAuthError message None)))
          \<and> ((\<exists>m. message_member (body response) = Some m \<and> to_string m = None) \<longrightarrow>
               exchangeCode flow fetch code state_arg
                 = Inl (GaugidConnectionError (FailedToConnect ThrownTypeError)))
          \<and> (\<forall>d v m str. body response = Some d \<and> get_member d ''error'' = Some v
                  \<and> get_member v ''message'' = Some m \<and> truthy m
                  \<and> to_string m = Some str \<longrightarrow>
               exchangeCode flow fetch code state_arg = Inl (GaugidAuthError str None))
          \<and> (\<forall>d v str. body response = Some d \<and> get_member d ''error'' = Some v
                  \<and> truthy v \<and> \<not> typeof_object v \<and> to_string v = Some str \<longrightarrow>
               exchangeCode flow fetch code state_arg = Inl (GaugidAuthError str None))
          \<and> (body response = None \<longrightarrow>
               exchangeCode flow fetch code state_arg
                 = Inl (GaugidAuthError ''Token exchange failed'' None))
          \<and> (\<forall>d. body response = Some d \<and> get_member d ''error'' = None \<longrightarrow>
               exchangeCode flow fetch code state_arg
                 = Inl (GaugidAuthError ''Token exchange failed'' None))
          \<and> (\<forall>d v. body response = Some d \<and> get_member d ''error'' = Some v
                  \<and> \<not> truthy v \<longrightarrow>
               exchangeCode flow fetch code state_arg
                 = Inl (GaugidAuthError ''Token exchange failed'' None))
          \<and> (\<forall>d v. body response = Some d \<and> get_member d ''error'' = Some v
                  \<and> truthy v \<and> typeof_object v \<and> get_member v ''message'' = None \<longrightarrow>
               exchangeCode flow fetch code state_arg
                 = Inl (GaugidAuthError ''Token exchange failed'' None))
          \<and> (\<forall>d v m. body response = Some d \<and> get_member d ''error'' = Some v
                  \<and> get_member v ''message'' = Some m \<and> \<not> truthy m \<longrightarrow>
               exchangeCode flow fetch code state_arg
                 = Inl (GaugidAuthError ''Token exchange failed'' None)))
       \<and> (status response = 200 \<longrightarrow>
            (\<forall>d. body response = Some d \<and> get_member d ''access_token'' = None \<longrightarrow>
               exchangeCode flow fetch code state_arg
                 = Inl (GaugidConnectionError (FailedToConnect SchemaViolation))))"
proof -
  note r = exchangeCode_responded
    [where fetch = fetch and flow = flow and code = code and state_arg = state_arg, OF assms]
  show ?thesis
  proof (intro conjI impI allI)
    assume "status response = 401"
    then show "exchangeCode flow fetch code state_arg
                = Inl (GaugidAuthError ''Invalid client credentials'' None)"
      by (simp add: r)
  next
    assume "status response = 400"
      and "\<forall>m. message_member (body response) = Some m \<longrightarrow> to_string m \<noteq> None"
    then show "\<exists>message. exchangeCode flow fetch code state_arg
                  = Inl (GaugidAuthError message None)"
      using token_exchange_message_printable [of "body response"] by (auto simp: r)
  next
    assume "status response = 400"
      and "\<exists>m. message_member (body response) = Some m \<and> to_string m = None"
    then show "exchangeCode flow fetch code state_arg
                 = Inl (GaugidConnectionError (FailedToConnect ThrownTypeError))"
      using token_exchange_message_unprintable [of "body response"] by (auto simp: r)
  next
    fix d v m str
    assume "status response = 400"
      and h: "body response = Some d \<and> get_member d ''error'' = Some v
                  \<and> get_member v ''message'' = Some m \<and> truthy m
                  \<and> to_string m = Some str"
    moreover from h have "truthy v \<and> typeof_object v"
      using get_member_is_object by blast
    ultimately show "exchangeCode flow fetch code state_arg = Inl (GaugidAuthError str None)"
      by (simp add: r token_exchange_message_def or_else_def)
  next
    fix d v str
    assume "status response = 400"
      and "body response = Some d \<and> get_member d ''error'' = Some v
                  \<and> truthy v \<and> \<not> typeof_object v \<and> to_string v = Some str"
    then show "exchangeCode flow fetch code state_arg = Inl (GaugidAuthError str None)"
      by (simp add: r token_exchange_message_def)
  next
    assume "status response = 400" and "body response = None"
    then show "exchangeCode flow fetch code state_arg
                   = Inl (GaugidAuthError ''Token exchange failed'' None)"
      by (simp add: r token_exchange_message_def)
  next
    fix d
    assume "status response = 400"
      and "body response = Some d \<and> get_member d ''error'' = None"
    then show "exchangeCode flow fetch code state_arg
                   = Inl (GaugidAuthError ''Token exchange failed'' None)"
      by (simp add: r token_exchange_message_def)
  next
    fix d v
    assume "status response = 400"
      and "body response = Some d \<and> get_member d ''error'' = Some v \<and> \<not> truthy v"
    then show "exchangeCode flow fetch code state_arg
                   = Inl (GaugidAuthError ''Token exchange failed'' None)"
      by (simp add: r token_exchange_message_def)
  next
    fix d v
    assume "status response = 400"
      and "body response = Some d \<and> get_member d ''error'' = Some v
                  \<and> truthy v \<and> typeof_object v \<and> get_member v ''message'' = None"
    then show "exchangeCode flow fetch code state_arg
                   = Inl (GaugidAuthError ''Token exchange failed'' None)"
      by (simp add: r token_exchange_message_def or_else_def)
  next
    fix d v m
    assume "status response = 400"
      and h: "body response = Some d \<and> get_member d ''error'' = Some v
                  \<and> get_member v ''message'' = Some m \<and> \<not> truthy m"
    moreover from h have "truthy v \<and> typeof_object v"
      using get_member_is_object by blast
    ultimately show "exchangeCode flow fetch code state_arg
                   = Inl (GaugidAuthError ''Token exchange failed'' None)"
      by (simp add: r token_exchange_message_def or_else_def)
  next
    fix d
    assume "status response = 200"
      and "body response = Some d \<and> get_member d ''access_token'' = None"
    then show "exchangeCode flow fetch code state_arg
                   = Inl (GaugidConnectionError (FailedToConnect SchemaViolation))"
      by (simp add: r ok_def schema_needs_access_token)
  qed
qed

theorem exchangeCode_errors_witness:
  "exchangeCode (new_OAuthFlow \<lparr>OAuthFlowConfig.clientId = ''my-service'', clientSecret = ''secret'',
        redirectUri = ''https://myapp.com/callback'', apiUrl = None, timeout = None\<rparr>)
     (\<lambda>request. Responded \<lparr>status = 401, statusText = ''Unauthorized'', body = None\<rparr>)
     ''abc123'' None
   = Inl (GaugidAuthError ''Invalid client credentials'' None)
   \<and> exchangeCode (new_OAuthFlow \<lparr>OAuthFlowConfig.clientId = ''my-service'', clientSecret = ''secret'',
        redirectUri = ''https://myapp.com/callback'', apiUrl = None, timeout = None\<rparr>)
     (\<lambda>request. Responded \<lparr>status = 400, statusText = ''Bad Request'',
        body = Some (JObj [(''error'',
                 JObj [(''message'', JStr ''Invalid authorization code'')])])\<rparr>)
     ''abc123'' None
   = Inl (GaugidAuthError ''Invalid authorization code'' None)
   \<and> exchangeCode (new_OAuthFlow \<lparr>OAuthFlowConfig.clientId = ''my-service'', clientSecret = ''secret'',
        redirectUri = ''https://myapp.com/callback'', apiUrl = None, timeout = None\<rparr>)
     (\<lambda>request. Responded \<lparr>status = 400, statusText = ''Bad Request'',
        body = Some (JObj [(''error'', JStr ''invalid_grant'')])\<rparr>)
     ''abc123'' None
   = Inl (GaugidAuthError ''invalid_grant'' None)
   \<and> exchangeCode (new_OAuthFlow \<lparr>OAuthFlowConfig.clientId = ''my-service'', clientSecret = ''secret'',
        redirectUri = ''https://myapp.com/callback'', apiUrl = None, timeout = None\<rparr>)
     (\<lambda>request. Responded \<lparr>status = 400, statusText = ''Bad Request'', body = None\<rparr>)
     ''abc123'' None
   = Inl (GaugidAuthError ''Token exchange failed'' None)
   \<and> exchangeCode (new_OAuthFlow \<lparr>OAuthFlowConfig.clientId = ''my-service'', clientSecret = ''secret'',
        redirectUri = ''https://myapp.com/callback'', apiUrl = None, timeout = None\<rparr>)
     (\<lambda>request. Responded \<lparr>status = 200, statusText = ''OK'',
        body = Some (JObj [(''token_type'', JStr ''Bearer'')])\<rparr>)
     ''abc123'' None
   = Inl (GaugidConnectionError (FailedToConnect SchemaViolation))"
proof -
  let ?flow = "new_OAuthFlow \<lparr>OAuthFlowConfig.clientId = ''my-service'', clientSecret = ''secret'',
        redirectUri = ''https://myapp.com/callback'', apiUrl = None, timeout = None\<rparr>"
  let ?r1 = "\<lparr>status = 401, statusText = ''Unauthorized'', body = None\<rparr>"
  let ?e = "[(''message'', JStr ''Invalid authorization code'')]"
  let ?r2 = "\<lparr>status = 400, statusText = ''Bad Request'',
        body = Some (JObj [(''error'', JObj ?e)])\<rparr>"
  let ?r3 = "\<lparr>status = 200, statusText = ''OK'',
        body = Some (JObj [(''token_type'', JStr ''Bearer'')])\<rparr>"
  let ?r4 = "\<lparr>status = 400, statusText = ''Bad Request'',
        body = Some (JObj [(''error'', JStr ''invalid_grant'')])\<rparr>"
  let ?r5 = "\<lparr>status = 400, statusText = ''Bad Request'', body = None\<rparr>"
  have "exchangeCode ?flow (\<lambda>request. Responded ?r1) ''abc123'' None
          = Inl (GaugidAuthError ''Invalid client credentials'' None)"
    using exchangeCode_errors
      [where fetch = "\<lambda>request. Responded ?r1" and response = ?r1 and flow = ?flow
         and code = "''abc123''" and state_arg = None]
    by simp
  moreover have "exchangeCode ?flow (\<lambda>request. Responded ?r2) ''abc123'' None
          = Inl (GaugidAuthError ''Invalid authorization code'' None)"
    using exchangeCode_errors
      [where fetch = "\<lambda>request. Responded ?r2" and response = ?r2 and flow = ?flow
         and code = "''abc123''" and state_arg = None]
    by simp
  moreover have "exchangeCode ?flow (\<lambda>request. Responded ?r4) ''abc123'' None
          = Inl (GaugidAuthError ''invalid_grant'' None)"
    using exchangeCode_errors
      [where fetch = "\<lambda>request. Responded ?r4" and response = ?r4 and flow = ?flow
         and code = "''abc123''" and state_arg = None]
    by simp
  moreover have "exchangeCode ?flow (\<lambda>request. Responded ?r5) ''abc123'' None
          = Inl (GaugidAuthError ''Token exchange failed'' None)"
    using exchangeCode_errors
      [where fetch = "\<lambda>request. Responded ?r5" and response = ?r5 and flow = ?flow
         and code = "''abc123''" and state_arg = None]
    by simp
  moreover have "exchangeCode ?flow (\<lambda>request. Responded ?r3) ''abc123'' None
          = Inl (GaugidConnectionError (FailedToConnect SchemaViolation))"
    using exchangeCode_errors
      [where fetch = "\<lambda>request. Responded ?r3" and response = ?r3 and flow = ?flow
         and code = "''abc123''" and state_arg = None]
    by simp
  ultimately show ?thesis
    by blast
qed

text \<open>
  The claim as stated, for every response with status 400, fails: the \<^verbatim>\<open>message\<close> of
  the body is cast to a string and not checked, and for an object with a member
  \<^verbatim>\<open>toString\<close> the constructor of the authentication error throws a
  \<^verbatim>\<open>TypeError\<close>, which the outer handler wraps in a connection error.
\<close>

theorem exchangeCode_counterexample:
  "exchangeCode (new_OAuthFlow \<lparr>OAuthFlowConfig.clientId = ''my-service'', clientSecret = ''secret'',
        redirectUri = ''https://myapp.com/callback'', apiUrl = None, timeout = None\<rparr>)
     (mocked_endpoint \<lparr>status = 400, statusText = ''Bad Request'',
        body = Some (JObj [(''error'',
                 JObj [(''message'', JObj [(''toString'', JNum ''1'')])])])\<rparr>)
     ''abc123'' None
   = Inl (GaugidConnectionError (FailedToConnect ThrownTypeError))"
  by (simp add: exchangeCode_def mocked_endpoint_def token_exchange_message_def or_else_def)

text \<open>
  C10. \<^verbatim>\<open>exchangeCode\<close> does not use its \<^verbatim>\<open>state\<close> argument: for any two values
  of it the request is the same, with the URL \<^verbatim>\<open>apiUrl/connect/token\<close> and a body of
  \<^verbatim>\<open>grant_type\<close>, \<^verbatim>\<open>code\<close>, \<^verbatim>\<open>client_id\<close>, \<^verbatim>\<open>client_secret\<close> and
  \<^verbatim>\<open>redirect_uri\<close> only, and on the same network the result is the same.
\<close>

theorem exchangeCode_ignores_state:
  "exchangeCode_request flow code state1 = exchangeCode_request flow code state2
   \<and> request_url (exchangeCode_request flow code state1) = apiUrl flow @ ''/connect/token''
   \<and> request_body (exchangeCode_request flow code state1)
       = JObj [(''grant_type'', JStr ''authorization_code''),
               (''code'', JStr code),
               (''client_id'', JStr (clientId flow)),
               (''client_secret'', JStr (clientSecret flow)),
               (''redirect_uri'', JStr (redirectUri flow))]
   \<and> exchangeCode flow fetch code state1 = exchangeCode flow fetch code state2"
  by (simp add: exchangeCode_request_def exchangeCode_def)

theorem exchangeCode_ignores_state_witness:
  "exchangeCode (new_OAuthFlow \<lparr>OAuthFlowConfig.clientId = ''my-service'', clientSecret = ''secret'',
        redirectUri = ''https://myapp.com/callback'', apiUrl = None, timeout = None\<rparr>)
     (\<lambda>request. Responded \<lparr>status = 401, statusText = ''Unauthorized'', body = None\<rparr>)
     ''abc123'' None
   = exchangeCode (new_OAuthFlow \<lparr>OAuthFlowConfig.clientId = ''my-service'', clientSecret = ''secret'',
        redirectUri = ''https://myapp.com/callback'', apiUrl = None, timeout = None\<rparr>)
     (\<lambda>request. Responded \<lparr>status = 401, statusText = ''Unauthorized'', body = None\<rparr>)
     ''abc123'' (Some ''xyz'')"
  using exchangeCode_ignores_state
    [of "new_OAuthFlow \<lparr>OAuthFlowConfig.clientId = ''my-service'', clientSecret = ''secret'',
        redirectUri = ''https://myapp.com/callback'', apiUrl = None, timeout = None\<rparr>" "''abc123''" None "Some ''xyz''"
        "\<lambda>request. Responded \<lparr>status = 401, statusText = ''Unauthorized'', body = None\<rparr>"]
  by blast

end
